theory Spec2Isabelle
  imports Main
begin

section \<open>JavaScript values\<close>

text \<open>
  The bridge handles plain data: what \<^verbatim>\<open>JSON.parse\<close> yields, what callers pass as arguments,
  and \<^verbatim>\<open>undefined\<close>. An object is the list of its own properties in the order in which
  JavaScript enumerates them (integer-like keys first, ascending, then the other keys in
  insertion order). A number
  is carried as the decimal text that \<^verbatim>\<open>String(n)\<close> yields for it (the program never computes
  with numbers, it only tests and prints them); \<^verbatim>\<open>-0\<close> prints as \<^verbatim>\<open>0\<close>.
\<close>

datatype jsval =
    JUndefined
  | JNull
  | JBool bool
  | JNum string
  | JStr string
  | JArr "jsval list"
  | JObj "(string \<times> jsval) list"

text \<open>Error-like objects (\<^verbatim>\<open>Error\<close>, \<^verbatim>\<open>TypeError\<close>, \<^verbatim>\<open>SyntaxError\<close>, \<^verbatim>\<open>DOMException\<close>):
  the values that \<^verbatim>\<open>fetch\<close>, body decoding and \<^verbatim>\<open>throw new Error(...)\<close> raise.\<close>

datatype condition = Condition (cname: string) (cmessage: string)

text \<open>\<^verbatim>\<open>ToBoolean\<close>: what \<^verbatim>\<open>if (x)\<close>, \<^verbatim>\<open>!x\<close> and \<^verbatim>\<open>x || y\<close> test.\<close>

fun truthy :: "jsval \<Rightarrow> bool" where
  "truthy JUndefined = False"
| "truthy JNull = False"
| "truthy (JBool b) = b"
| "truthy (JNum t) = (t \<noteq> ''0'' \<and> t \<noteq> ''NaN'')"
| "truthy (JStr s) = (s \<noteq> [])"
| "truthy (JArr xs) = True"
| "truthy (JObj kvs) = True"

text \<open>\<^verbatim>\<open>a || b\<close> on values.\<close>

definition js_or :: "jsval \<Rightarrow> jsval \<Rightarrow> jsval" where
  "js_or a b = (if truthy a then a else b)"

fun nullish :: "jsval \<Rightarrow> bool" where
  "nullish JUndefined = True"
| "nullish JNull = True"
| "nullish v = False"

text \<open>\<^verbatim>\<open>Array.prototype.join\<close> on strings that are already converted.\<close>

fun join :: "string \<Rightarrow> string list \<Rightarrow> string" where
  "join sep [] = []"
| "join sep [x] = x"
| "join sep (x # y # ys) = x @ sep @ join sep (y # ys)"

text \<open>\<^verbatim>\<open>String(v)\<close> and template interpolation. An array prints its elements joined by commas,
  with \<^verbatim>\<open>null\<close> and \<^verbatim>\<open>undefined\<close> elements printed as the empty string; a plain object prints
  as \<^verbatim>\<open>[object Object]\<close>.\<close>

fun js_String :: "jsval \<Rightarrow> string" where
  "js_String JUndefined = ''undefined''"
| "js_String JNull = ''null''"
| "js_String (JBool b) = (if b then ''true'' else ''false'')"
| "js_String (JNum t) = t"
| "js_String (JStr s) = s"
| "js_String (JArr xs) = join '','' (map (\<lambda>x. if nullish x then [] else js_String x) xs)"
| "js_String (JObj kvs) = ''[object Object]''"

text \<open>\<^verbatim>\<open>xs.join(sep)\<close> on an array of values.\<close>

definition array_join :: "string \<Rightarrow> jsval list \<Rightarrow> string" where
  "array_join sep xs = join sep (map (\<lambda>x. if nullish x then [] else js_String x) xs)"

text \<open>Reading a property of a non-nullish value, for the property names this program reads
  (\<^verbatim>\<open>courses\<close>, \<^verbatim>\<open>summary\<close>, \<^verbatim>\<open>question\<close>, \<^verbatim>\<open>answer\<close>): none of them is defined by a built-in
  prototype, so the read yields an object's own property or \<^verbatim>\<open>undefined\<close>.\<close>

fun get_field :: "jsval \<Rightarrow> string \<Rightarrow> jsval" where
  "get_field (JObj kvs) k = (case map_of kvs k of Some v \<Rightarrow> v | None \<Rightarrow> JUndefined)"
| "get_field v k = JUndefined"

fun isArray :: "jsval \<Rightarrow> bool" where
  "isArray (JArr xs) = True"
| "isArray v = False"

subsection \<open>\<^verbatim>\<open>JSON.stringify\<close>\<close>

definition hex_digit :: "string \<Rightarrow> nat \<Rightarrow> char" where
  "hex_digit digits n = digits ! (n mod 16)"

definition lower_hex :: string where
  "lower_hex = ''0123456789abcdef''"

definition upper_hex :: string where
  "upper_hex = ''0123456789ABCDEF''"

definition quote_char :: "char \<Rightarrow> string" where
  "quote_char c =
     (if c = CHR 0x22 then [CHR 0x5C, CHR 0x22]
      else if c = CHR 0x5C then [CHR 0x5C, CHR 0x5C]
      else if c = CHR 0x08 then [CHR 0x5C, CHR ''b'']
      else if c = CHR 0x0C then [CHR 0x5C, CHR ''f'']
      else if c = CHR 0x0A then [CHR 0x5C, CHR ''n'']
      else if c = CHR 0x0D then [CHR 0x5C, CHR ''r'']
      else if c = CHR 0x09 then [CHR 0x5C, CHR ''t'']
      else if (of_char c :: nat) < 32
        then [CHR 0x5C, CHR ''u'', CHR ''0'', CHR ''0'',
              hex_digit lower_hex (of_char c div 16), hex_digit lower_hex (of_char c)]
      else [c])"

definition quote :: "string \<Rightarrow> string" where
  "quote s = [CHR 0x22] @ concat (map quote_char s) @ [CHR 0x22]"

text \<open>\<^verbatim>\<open>JSON.stringify(v)\<close>: \<^verbatim>\<open>undefined\<close> at top level gives \<^verbatim>\<open>undefined\<close> (here \<open>None\<close>), inside an
  array it prints as \<^verbatim>\<open>null\<close>, and a property holding it is left out. Non-finite numbers print
  as \<^verbatim>\<open>null\<close>.\<close>

fun JSON_stringify :: "jsval \<Rightarrow> string option" where
  "JSON_stringify JUndefined = None"
| "JSON_stringify JNull = Some ''null''"
| "JSON_stringify (JBool b) = Some (if b then ''true'' else ''false'')"
| "JSON_stringify (JNum t) =
     Some (if t = ''NaN'' \<or> t = ''Infinity'' \<or> t = ''-Infinity'' then ''null'' else t)"
| "JSON_stringify (JStr s) = Some (quote s)"
| "JSON_stringify (JArr xs) =
     Some (''['' @ join '',''
        (map (\<lambda>x. case JSON_stringify x of None \<Rightarrow> ''null'' | Some t \<Rightarrow> t) xs) @ '']'')"
| "JSON_stringify (JObj kvs) =
     Some (''{'' @ join '',''
        (concat (map (\<lambda>(k, v). case JSON_stringify v of
                                   None \<Rightarrow> []
                                 | Some t \<Rightarrow> [quote k @ '':'' @ t]) kvs)) @ ''}'')"

section \<open>Platform objects: abort signals and timers\<close>

text \<open>An abort reason is any value: an error object or plain data.\<close>

datatype reason = Thrown condition | Plain jsval

fun truthy_reason :: "reason \<Rightarrow> bool" where
  "truthy_reason (Thrown c) = True"
| "truthy_reason (Plain v) = truthy v"

text \<open>The two closures that \<^verbatim>\<open>withTimeout\<close> creates, each with the signals it captures
  (signals are addressed by their index in the heap):
  \<^item> \<open>TimeoutAbort ctrl\<close> is \<^verbatim>\<open>() => ctrl.abort(new Error("Timeout"))\<close>;
  \<^item> \<open>OnAbort combined signal\<close> is
    \<^verbatim>\<open>() => combined.abort(signal.reason || new Error("Aborted"))\<close>.\<close>

datatype callback = TimeoutAbort nat | OnAbort nat nat

record abort_signal =
  aborted :: bool
  abort_reason :: reason
  listeners :: "callback list"

record timer =
  timer_id :: nat
  remaining :: nat
  callback :: callback

record request =
  req_method :: string
  req_url :: string
  req_headers :: "(string \<times> jsval) list"
  req_body :: "string option"
  req_signal :: nat

text \<open>Calls to the platform, in the order the program makes them.\<close>

datatype event =
    SetTimeout nat nat
  | ClearTimeout nat
  | Fetch request
  | ReadJson
  | ReadText

section \<open>Configuration and state\<close>

text \<open>The module's two variables (\<^verbatim>\<open>script.js\<close>, lines 9 and 10) and the platform objects the
  program creates: the heap of abort signals, the pending timers, the next timer id, and the
  platform calls made so far.\<close>

record state =
  API_BASE :: jsval
  ADMIN_KEY :: jsval
  signals :: "abort_signal list"
  timers :: "timer list"
  next_timer :: nat
  calls :: "event list"

definition DEFAULT_TIMEOUT_MS :: nat where
  "DEFAULT_TIMEOUT_MS = 12000"

definition initial :: state where
  "initial = \<lparr> API_BASE = JStr ''https://bcm-demo.onrender.com'', ADMIN_KEY = JUndefined,
               signals = [], timers = [], next_timer = 1, calls = [] \<rparr>"

text \<open>The setters and the getter of \<^verbatim>\<open>window.BCM\<close> (lines 185 to 187).\<close>

definition setApiBase :: "jsval \<Rightarrow> state \<Rightarrow> state" where
  "setApiBase u s = s\<lparr> API_BASE := JStr (js_String (js_or u (API_BASE s))) \<rparr>"

definition getApiBase :: "state \<Rightarrow> jsval" where
  "getApiBase s = API_BASE s"

definition setAdminKey :: "jsval \<Rightarrow> state \<Rightarrow> state" where
  "setAdminKey key s = s\<lparr> ADMIN_KEY := js_or key JUndefined \<rparr>"

subsection \<open>Platform operations\<close>

text \<open>\<^verbatim>\<open>new AbortController()\<close> puts a fresh signal on the heap and yields its address;
  \<^verbatim>\<open>signal.reason\<close> is \<^verbatim>\<open>undefined\<close> until the signal is aborted.\<close>

definition fresh_signal :: abort_signal where
  "fresh_signal = \<lparr> aborted = False, abort_reason = Plain JUndefined, listeners = [] \<rparr>"

definition new_AbortController :: "state \<Rightarrow> nat \<times> state" where
  "new_AbortController s = (length (signals s), s\<lparr> signals := signals s @ [fresh_signal] \<rparr>)"

text \<open>Timers carry the milliseconds left until they fire. \<^verbatim>\<open>clearTimeout\<close> of an id that is
  not pending does nothing but is still a call.\<close>

definition setTimeout :: "callback \<Rightarrow> nat \<Rightarrow> state \<Rightarrow> nat \<times> state" where
  "setTimeout cb ms s =
     (next_timer s,
      s\<lparr> timers := timers s @ [\<lparr> timer_id = next_timer s, remaining = ms, callback = cb \<rparr>],
         next_timer := Suc (next_timer s),
         calls := calls s @ [SetTimeout (next_timer s) ms] \<rparr>)"

definition clearTimeout :: "nat \<Rightarrow> state \<Rightarrow> state" where
  "clearTimeout i s =
     s\<lparr> timers := filter (\<lambda>t. timer_id t \<noteq> i) (timers s), calls := calls s @ [ClearTimeout i] \<rparr>"

text \<open>\<^verbatim>\<open>signal.addEventListener("abort", cb, { once: true })\<close> registers \<open>cb\<close> for the next
  dispatch of the event. It never calls \<open>cb\<close> itself, whatever the state of the signal.\<close>

definition addEventListener :: "nat \<Rightarrow> callback \<Rightarrow> state \<Rightarrow> state" where
  "addEventListener g cb s =
     (if g < length (signals s)
      then s\<lparr> signals := (signals s)[g := (signals s ! g)\<lparr> listeners := listeners (signals s ! g) @ [cb] \<rparr>] \<rparr>
      else s)"

definition signal_aborted :: "state \<Rightarrow> nat \<Rightarrow> bool" where
  "signal_aborted s g = (g < length (signals s) \<and> aborted (signals s ! g))"

definition signal_reason :: "state \<Rightarrow> nat \<Rightarrow> reason" where
  "signal_reason s g = (if g < length (signals s) then abort_reason (signals s ! g) else Plain JUndefined)"

definition Error :: "string \<Rightarrow> condition" where
  "Error msg = Condition ''Error'' msg"

fun callback_target :: "callback \<Rightarrow> nat" where
  "callback_target (TimeoutAbort ctrl) = ctrl"
| "callback_target (OnAbort combined g) = combined"

fun callback_reason :: "callback \<Rightarrow> state \<Rightarrow> reason" where
  "callback_reason (TimeoutAbort ctrl) s = Thrown (Error ''Timeout'')"
| "callback_reason (OnAbort combined g) s =
     (if truthy_reason (signal_reason s g) then signal_reason s g else Thrown (Error ''Aborted''))"

text \<open>\<^verbatim>\<open>controller.abort(reason)\<close> on a signal that is not yet aborted: the signal becomes
  aborted with the reason (an \<^verbatim>\<open>AbortError\<close> when none is given), then the event is dispatched
  to the listeners, which are dropped afterwards (\<^verbatim>\<open>once\<close>). On an aborted signal it does
  nothing. A listener may abort further signals; \<open>run_callbacks\<close> runs a list of pending
  closures depth first.\<close>

definition mark_aborted :: "nat \<Rightarrow> reason \<Rightarrow> state \<Rightarrow> state" where
  "mark_aborted g r s =
     s\<lparr> signals := (signals s)[g := \<lparr> aborted = True,
            abort_reason = (if r = Plain JUndefined
                            then Thrown (Condition ''AbortError'' ''signal is aborted without reason'')
                            else r),
            listeners = [] \<rparr>] \<rparr>"

definition live :: "state \<Rightarrow> nat" where
  "live s = length (filter (\<lambda>g. \<not> aborted g) (signals s))"

function run_callbacks :: "callback list \<Rightarrow> state \<Rightarrow> state" where
  "run_callbacks [] s = s"
| "run_callbacks (cb # cbs) s =
     (if callback_target cb < length (signals s) \<and> \<not> aborted (signals s ! callback_target cb)
      then run_callbacks (listeners (signals s ! callback_target cb) @ cbs)
             (mark_aborted (callback_target cb) (callback_reason cb s) s)
      else run_callbacks cbs s)"
  by pat_completeness auto
termination
proof (relation "measures [\<lambda>(cbs, s). live s, \<lambda>(cbs, s). length cbs]")
  show "wf (measures [\<lambda>(cbs, s). live s, \<lambda>(cbs, s). length cbs])" by simp
next
  fix cb cbs and s :: state
  assume a: "callback_target cb < length (signals s) \<and> \<not> aborted (signals s ! callback_target cb)"
  have dec: "length (filter (\<lambda>g. \<not> aborted g) (xs[i := y])) < length (filter (\<lambda>g. \<not> aborted g) xs)"
    if "i < length xs" "\<not> aborted (xs ! i)" "aborted y" for xs :: "abort_signal list" and i y
    using that
  proof (induction xs arbitrary: i)
    case Nil
    then show ?case by simp
  next
    case (Cons x xs)
    then show ?case by (cases i) auto
  qed
  from a have "live (mark_aborted (callback_target cb) (callback_reason cb s) s) < live s"
    by (simp add: live_def mark_aborted_def dec)
  then show "((listeners (signals s ! callback_target cb) @ cbs,
               mark_aborted (callback_target cb) (callback_reason cb s) s), cb # cbs, s)
             \<in> measures [\<lambda>(cbs, s). live s, \<lambda>(cbs, s). length cbs]"
    by simp
next
  fix cb cbs and s :: state
  show "((cbs, s), cb # cbs, s) \<in> measures [\<lambda>(cbs, s). live s, \<lambda>(cbs, s). length cbs]"
    by simp
qed

definition abort :: "nat \<Rightarrow> reason \<Rightarrow> state \<Rightarrow> state" where
  "abort g r s =
     (if g < length (signals s) \<and> \<not> aborted (signals s ! g)
      then run_callbacks (listeners (signals s ! g)) (mark_aborted g r s)
      else s)"

text \<open>\<open>elapse d\<close>: \<open>d\<close> milliseconds pass; the timers due by then fire in order of their
  due time (registration order among equals).\<close>

definition elapse :: "nat \<Rightarrow> state \<Rightarrow> state" where
  "elapse d s =
     foldl (\<lambda>s' t. run_callbacks [callback t] s')
       (s\<lparr> timers := map (\<lambda>t. t\<lparr> remaining := remaining t - d \<rparr>)
                        (filter (\<lambda>t. d < remaining t) (timers s)) \<rparr>)
       (sort_key remaining (filter (\<lambda>t. remaining t \<le> d) (timers s)))"

section \<open>Timeout composer\<close>

text \<open>The object \<^verbatim>\<open>withTimeout\<close> returns: \<open>signal\<close> is the address of the produced signal,
  \<open>clear\<close> the timer id that the closure \<^verbatim>\<open>() => clearTimeout(id)\<close> captures, \<open>controller\<close> the
  address of \<^verbatim>\<open>ctrl\<close>. An absent (or falsy) \<^verbatim>\<open>signal\<close> argument is \<open>None\<close>.\<close>

record handle =
  signal :: nat
  clear :: nat
  controller :: nat

text \<open>\<^verbatim>\<open>withTimeout(ms, signal)\<close>, lines 15 to 33.\<close>

definition withTimeout :: "nat \<Rightarrow> nat option \<Rightarrow> state \<Rightarrow> handle \<times> state" where
  "withTimeout ms sig s =
     (let (ctrl, s1) = new_AbortController s;
          (tid, s2) = setTimeout (TimeoutAbort ctrl) ms s1;
          (combined, s3) = (case sig of
                              Some g \<Rightarrow> (let (c, s') = new_AbortController s2 in (Some c, s'))
                            | None \<Rightarrow> (None, s2));
          s4 = (case (sig, combined) of
                  (Some g, Some c) \<Rightarrow> addEventListener g (OnAbort c g) s3
                | _ \<Rightarrow> s3)
      in (\<lparr> signal = (case combined of Some c \<Rightarrow> c | None \<Rightarrow> ctrl), clear = tid, controller = ctrl \<rparr>,
          s4))"

text \<open>A state in which a caller holds one controller of its own, at address 0.\<close>

definition with_external :: state where
  "with_external = snd (new_AbortController initial)"

section \<open>Strings\<close>

text \<open>Strings are lists of bytes. \<^verbatim>\<open>s.includes(p)\<close> tests for a contiguous occurrence;
  \<^verbatim>\<open>toLowerCase\<close> is modelled on the letters A to Z (no other character lower-cases to a
  letter of \<^verbatim>\<open>course\<close> or \<^verbatim>\<open>faq\<close>).\<close>

fun startsWith :: "string \<Rightarrow> string \<Rightarrow> bool" where
  "startsWith s [] = True"
| "startsWith [] (p # ps) = False"
| "startsWith (c # cs) (p # ps) = (c = p \<and> startsWith cs ps)"

fun includes_str :: "string \<Rightarrow> string \<Rightarrow> bool" where
  "includes_str [] p = (p = [])"
| "includes_str (c # cs) p = (startsWith (c # cs) p \<or> includes_str cs p)"

definition toLowerCase_char :: "char \<Rightarrow> char" where
  "toLowerCase_char c =
     (case map_of (zip ''ABCDEFGHIJKLMNOPQRSTUVWXYZ'' ''abcdefghijklmnopqrstuvwxyz'') c of
        Some l \<Rightarrow> l
      | None \<Rightarrow> c)"

definition toLowerCase :: "string \<Rightarrow> string" where
  "toLowerCase s = map toLowerCase_char s"

text \<open>A status code in a template literal: its decimal digits.\<close>

fun show_nat :: "nat \<Rightarrow> string" where
  "show_nat n =
     (if n < 10 then [''0123456789'' ! n]
      else show_nat (n div 10) @ [''0123456789'' ! (n mod 10)])"

declare show_nat.simps [simp del]

text \<open>\<^verbatim>\<open>String(err)\<close> of an error object (\<^verbatim>\<open>Error.prototype.toString\<close>).\<close>

fun condition_String :: "condition \<Rightarrow> string" where
  "condition_String (Condition name msg) =
     (if name = [] then msg else if msg = [] then name else name @ '': '' @ msg)"

section \<open>HTTP transport\<close>

text \<open>What the network answers: \<open>content_type\<close> is \<^verbatim>\<open>res.headers.get("content-type")\<close> (\<open>None\<close> for
  \<^verbatim>\<open>null\<close>), \<open>json_body\<close> and \<open>text_body\<close> are what \<^verbatim>\<open>await res.json()\<close> and \<^verbatim>\<open>await res.text()\<close>
  yield or throw. \<^verbatim>\<open>res.ok\<close> holds for the statuses 200 to 299. \<^verbatim>\<open>fetch\<close> itself is the
  environment: a function from the request to a rejection or a response. What it and the
  body reads throw are error objects; a timeout reaches the transport as such a rejection,
  with the abort reason \<^verbatim>\<open>Error("Timeout")\<close>.\<close>

record response =
  status :: nat
  statusText :: string
  content_type :: "string option"
  json_body :: "condition + jsval"
  text_body :: "condition + string"

definition response_ok :: "response \<Rightarrow> bool" where
  "response_ok res = (200 \<le> status res \<and> status res \<le> 299)"

type_synonym network = "request \<Rightarrow> condition + response"

text \<open>An \<^verbatim>\<open>async\<close> function ends by rejecting (\<open>Inl\<close>) or fulfilling (\<open>Inr\<close>), in a new state.
  \<open>await p k\<close> continues with \<open>k\<close> when \<open>p\<close> fulfils and rethrows when it rejects.
  \<open>try_catch_finally\<close> is \<^verbatim>\<open>try { block } catch (err) { handler } finally { finalizer }\<close> for a
  finalizer that neither throws nor returns.\<close>

type_synonym 'a promise = "(condition + 'a) \<times> state"

definition await :: "'a promise \<Rightarrow> ('a \<Rightarrow> state \<Rightarrow> 'b promise) \<Rightarrow> 'b promise" where
  "await p k = (case p of (Inl err, s) \<Rightarrow> (Inl err, s) | (Inr v, s) \<Rightarrow> k v s)"

definition try_catch_finally ::
  "(state \<Rightarrow> 'a promise) \<Rightarrow> (condition \<Rightarrow> state \<Rightarrow> 'a promise) \<Rightarrow> (state \<Rightarrow> state) \<Rightarrow> state \<Rightarrow> 'a promise"
where
  "try_catch_finally block handler finalizer s =
     (let (r, s1) = block s;
          (r', s2) = (case r of Inl err \<Rightarrow> handler err s1 | Inr v \<Rightarrow> (Inr v, s1))
      in (r', finalizer s2))"

text \<open>The object literals \<^verbatim>\<open>{ ok: true, data }\<close> and \<^verbatim>\<open>{ ok: false, error: ... }\<close>: a property that
  the literal does not write is absent (\<open>None\<close>).\<close>

record outcome =
  ok :: bool
  data :: "jsval option"
  error :: "string option"

definition success :: "jsval \<Rightarrow> outcome" where
  "success d = \<lparr> ok = True, data = Some d, error = None \<rparr>"

definition failure :: "string \<Rightarrow> outcome" where
  "failure msg = \<lparr> ok = False, data = None, error = Some msg \<rparr>"

text \<open>The second parameter \<^verbatim>\<open>{ timeout = DEFAULT_TIMEOUT_MS, headers = {} } = {}\<close>. The argument
  is left out (or \<^verbatim>\<open>undefined\<close>), \<^verbatim>\<open>null\<close>, or a value with properties. Of such a value the record
  keeps what the function reads: \<open>timeout\<close> is \<open>None\<close> when the property is \<^verbatim>\<open>undefined\<close> and
  otherwise the milliseconds that \<^verbatim>\<open>setTimeout\<close> makes of it; \<open>headers\<close> is \<open>None\<close> when the property
  is \<^verbatim>\<open>undefined\<close> and otherwise the properties that the spread copies.

  Binding the parameter happens when the function is called, before its body and so before
  the \<^verbatim>\<open>try\<close>: an argument left out takes the default \<^verbatim>\<open>{}\<close>, and destructuring \<^verbatim>\<open>null\<close> throws a
  \<^verbatim>\<open>TypeError\<close> (the message is the engine's; V8's is used).\<close>

record options =
  timeout :: "nat option"
  headers :: "(string \<times> jsval) list option"

definition timeout_of :: "options \<Rightarrow> nat" where
  "timeout_of opts = (case timeout opts of Some ms \<Rightarrow> ms | None \<Rightarrow> DEFAULT_TIMEOUT_MS)"

definition headers_of :: "options \<Rightarrow> (string \<times> jsval) list" where
  "headers_of opts = (case headers opts of Some h \<Rightarrow> h | None \<Rightarrow> [])"

definition empty_options :: options where
  "empty_options = \<lparr> timeout = None, headers = None \<rparr>"

datatype options_arg = Omitted | Null | Given options

definition no_options :: options_arg where
  "no_options = Omitted"

fun bind_options :: "options_arg \<Rightarrow> condition + options" where
  "bind_options Omitted = Inr empty_options"
| "bind_options Null =
     Inl (Condition ''TypeError''
            (''Cannot destructure property '' @ [CHR 0x27] @ ''timeout'' @ [CHR 0x27] @ '' of ''
               @ [CHR 0x27] @ ''object null'' @ [CHR 0x27] @ '' as it is null.''))"
| "bind_options (Given opts) = Inr opts"

text \<open>Writing a property keeps the place of a key that exists and appends a new one (the
  keys written here are header names, none of them integer-like);
  \<^verbatim>\<open>{ ...base, ...ext }\<close> writes the properties of \<open>ext\<close> in order.\<close>

fun obj_set :: "string \<Rightarrow> jsval \<Rightarrow> (string \<times> jsval) list \<Rightarrow> (string \<times> jsval) list" where
  "obj_set k v [] = [(k, v)]"
| "obj_set k v ((k', v') # kvs) = (if k = k' then (k, v) # kvs else (k', v') # obj_set k v kvs)"

definition spread :: "(string \<times> jsval) list \<Rightarrow> (string \<times> jsval) list \<Rightarrow> (string \<times> jsval) list" where
  "spread base ext = foldl (\<lambda>acc (k, v). obj_set k v acc) base ext"

text \<open>The three platform calls of the transport, each recorded.\<close>

definition fetch :: "network \<Rightarrow> request \<Rightarrow> state \<Rightarrow> response promise" where
  "fetch net req s = (net req, s\<lparr> calls := calls s @ [Fetch req] \<rparr>)"

definition res_json :: "response \<Rightarrow> state \<Rightarrow> jsval promise" where
  "res_json res s = (json_body res, s\<lparr> calls := calls s @ [ReadJson] \<rparr>)"

definition res_text :: "response \<Rightarrow> state \<Rightarrow> jsval promise" where
  "res_text res s = (map_sum id JStr (text_body res), s\<lparr> calls := calls s @ [ReadText] \<rparr>)"

text \<open>Lines 43 to 53 of \<^verbatim>\<open>httpGet\<close> and 70 to 80 of \<^verbatim>\<open>httpPost\<close>, which differ in the verb of the
  message only: decode the body by content type, then throw on a status outside 2xx.\<close>

definition read_response :: "string \<Rightarrow> string \<Rightarrow> response \<Rightarrow> state \<Rightarrow> outcome promise" where
  "read_response verb path res s =
     (let contentType = (case content_type res of Some c \<Rightarrow> c | None \<Rightarrow> [])
      in await (if includes_str contentType ''application/json'' then res_json res s else res_text res s)
           (\<lambda>d s'. if \<not> response_ok res
                    then (Inl (Error (verb @ '' '' @ path @ '' -> '' @ show_nat (status res)
                                        @ '' '' @ statusText res)), s')
                    else (Inr (success d), s')))"

text \<open>The handler \<^verbatim>\<open>catch (err) { return { ok: false, error: err.message || String(err) }; }\<close>;
  \<open>error_text err\<close> is \<^verbatim>\<open>err.message || String(err)\<close>.\<close>

definition error_text :: "condition \<Rightarrow> string" where
  "error_text err = (if cmessage err \<noteq> [] then cmessage err else condition_String err)"

definition catch_error :: "condition \<Rightarrow> state \<Rightarrow> outcome promise" where
  "catch_error err s = (Inr (failure (error_text err)), s)"

text \<open>\<^verbatim>\<open>httpGet(path, options)\<close>, lines 35 to 59: the URL and the init object of its
  \<^verbatim>\<open>fetch\<close>, then the function. The parameter is bound first; where that throws, the promise
  rejects and nothing else happens. \<^verbatim>\<open>withTimeout\<close> is called before the \<^verbatim>\<open>try\<close>; the block
  reads \<^verbatim>\<open>API_BASE\<close> when it runs.\<close>

definition httpGet_request :: "string \<Rightarrow> options \<Rightarrow> handle \<Rightarrow> state \<Rightarrow> request" where
  "httpGet_request path opts t s =
     \<lparr> req_method = ''GET'',
       req_url = js_String (API_BASE s) @ path,
       req_headers = spread [(''Accept'', JStr ''application/json'')]
                       (headers_of opts),
       req_body = None,
       req_signal = signal t \<rparr>"

definition httpGet :: "network \<Rightarrow> string \<Rightarrow> options_arg \<Rightarrow> state \<Rightarrow> outcome promise" where
  "httpGet net path arg s =
     (case bind_options arg of
        Inl err \<Rightarrow> (Inl err, s)
      | Inr opts \<Rightarrow>
          (let (t, s0) = withTimeout (timeout_of opts) None s
           in try_catch_finally
                (\<lambda>s1. await (fetch net (httpGet_request path opts t s1) s1) (read_response ''GET'' path))
                catch_error
                (clearTimeout (clear t))
                s0))"

text \<open>\<^verbatim>\<open>httpPost(path, body, options)\<close>, lines 61 to 86.\<close>

definition httpPost_request :: "string \<Rightarrow> jsval \<Rightarrow> options \<Rightarrow> handle \<Rightarrow> state \<Rightarrow> request" where
  "httpPost_request path payload opts t s =
     \<lparr> req_method = ''POST'',
       req_url = js_String (API_BASE s) @ path,
       req_headers = spread [(''Content-Type'', JStr ''application/json''),
                             (''Accept'', JStr ''application/json'')]
                       (headers_of opts),
       req_body = JSON_stringify (js_or payload (JObj [])),
       req_signal = signal t \<rparr>"

definition httpPost :: "network \<Rightarrow> string \<Rightarrow> jsval \<Rightarrow> options_arg \<Rightarrow> state \<Rightarrow> outcome promise" where
  "httpPost net path payload arg s =
     (case bind_options arg of
        Inl err \<Rightarrow> (Inl err, s)
      | Inr opts \<Rightarrow>
          (let (t, s0) = withTimeout (timeout_of opts) None s
           in try_catch_finally
                (\<lambda>s1. await (fetch net (httpPost_request path payload opts t s1) s1)
                        (read_response ''POST'' path))
                catch_error
                (clearTimeout (clear t))
                s0))"

section \<open>Response formatters\<close>

text \<open>Reading a property of \<^verbatim>\<open>null\<close> or \<^verbatim>\<open>undefined\<close> throws a \<^verbatim>\<open>TypeError\<close> (the message is the
  engine's; V8's is used). \<open>map_throwing\<close> is \<^verbatim>\<open>xs.map(f)\<close> for an \<open>f\<close> that may throw.\<close>

definition TypeError_reading :: "jsval \<Rightarrow> string \<Rightarrow> condition" where
  "TypeError_reading v k =
     Condition ''TypeError''
       (''Cannot read properties of '' @ js_String v @ '' (reading '' @ [CHR 0x27] @ k @ [CHR 0x27] @ '')'')"

definition read_property :: "jsval \<Rightarrow> string \<Rightarrow> condition + jsval" where
  "read_property v k = (if nullish v then Inl (TypeError_reading v k) else Inr (get_field v k))"

fun map_throwing :: "('a \<Rightarrow> condition + 'b) \<Rightarrow> 'a list \<Rightarrow> condition + 'b list" where
  "map_throwing f [] = Inr []"
| "map_throwing f (x # xs) =
     (case f x of
        Inl err \<Rightarrow> Inl err
      | Inr y \<Rightarrow> (case map_throwing f xs of Inl err \<Rightarrow> Inl err | Inr ys \<Rightarrow> Inr (y # ys)))"

fun elements :: "jsval \<Rightarrow> jsval list" where
  "elements (JArr xs) = xs"
| "elements v = []"

text \<open>The arrow function \<^verbatim>\<open>c => c.summary || JSON.stringify(c)\<close>.\<close>

definition course_line :: "jsval \<Rightarrow> condition + jsval" where
  "course_line c =
     (case read_property c ''summary'' of
        Inl err \<Rightarrow> Inl err
      | Inr sm \<Rightarrow> Inr (if truthy sm then sm
                       else (case JSON_stringify c of Some t \<Rightarrow> JStr t | None \<Rightarrow> JUndefined)))"

text \<open>\<^verbatim>\<open>coursesToText(data)\<close>, lines 89 to 94.\<close>

definition coursesToText :: "jsval \<Rightarrow> condition + string" where
  "coursesToText d =
     (if \<not> truthy d \<or> \<not> isArray (get_field d ''courses'')
      then Inr ''No courses available at the moment.''
      else case map_throwing course_line (elements (get_field d ''courses'')) of
             Inl err \<Rightarrow> Inl err
           | Inr lines \<Rightarrow> Inr (if lines \<noteq> [] then array_join [CHR 0x0A] lines
                               else ''No courses available at the moment.''))"

text \<open>The arrow function of \<^verbatim>\<open>faqsToText\<close>: a template literal that interpolates
  \<^verbatim>\<open>f.question\<close>, a colon and a blank, and \<^verbatim>\<open>f.answer\<close>.\<close>

definition faq_line :: "jsval \<Rightarrow> condition + jsval" where
  "faq_line f =
     (case read_property f ''question'' of
        Inl err \<Rightarrow> Inl err
      | Inr q \<Rightarrow> (case read_property f ''answer'' of
                    Inl err \<Rightarrow> Inl err
                  | Inr a \<Rightarrow> Inr (JStr (js_String q @ '': '' @ js_String a))))"

text \<open>\<^verbatim>\<open>faqsToText(data)\<close>, lines 96 to 100.\<close>

definition faqsToText :: "jsval \<Rightarrow> condition + string" where
  "faqsToText d =
     (if \<not> isArray d \<or> elements d = []
      then Inr ''No FAQs available right now.''
      else case map_throwing faq_line (elements d) of
             Inl err \<Rightarrow> Inl err
           | Inr lines \<Rightarrow> Inr (array_join [CHR 0x0A] lines))"

section \<open>Domain operations\<close>

text \<open>The structured operations, lines 111 to 143. Each ends with
  \<^verbatim>\<open>return res.ok ? res : { ok: false, error: msg }\<close>, but for \<^verbatim>\<open>pingHealth\<close>.\<close>

definition substitute :: "string \<Rightarrow> outcome \<Rightarrow> state \<Rightarrow> outcome promise" where
  "substitute msg res s = (Inr (if ok res then res else failure msg), s)"

definition fetchCourses :: "network \<Rightarrow> state \<Rightarrow> outcome promise" where
  "fetchCourses net s =
     await (httpGet net ''/courses/summary/all'' no_options s)
       (substitute ''Live system is unreachable. Please try again later.'')"

definition fetchFaqs :: "network \<Rightarrow> state \<Rightarrow> outcome promise" where
  "fetchFaqs net s =
     await (httpGet net ''/faqs'' no_options s) (substitute ''FAQs are not available right now.'')"

text \<open>\<^verbatim>\<open>URLSearchParams\<close>: \<open>params_set\<close> is \<^verbatim>\<open>q.set(name, value)\<close>, \<open>params_toString\<close> is
  \<^verbatim>\<open>q.toString()\<close> (the \<^verbatim>\<open>application/x-www-form-urlencoded\<close> serializer, byte by byte).\<close>

definition alnum :: string where
  "alnum = ''0123456789ABCDEFGHIJKLMNOPQRSTUVWXYZabcdefghijklmnopqrstuvwxyz''"

definition urlencode_char :: "char \<Rightarrow> string" where
  "urlencode_char c =
     (if c \<in> set ''*-._'' \<or> c \<in> set alnum then [c]
      else if c = CHR '' '' then ''+''
      else [CHR ''%'', hex_digit upper_hex (of_char c div 16), hex_digit upper_hex (of_char c)])"

definition urlencode :: "string \<Rightarrow> string" where
  "urlencode s = concat (map urlencode_char s)"

fun params_set :: "string \<Rightarrow> string \<Rightarrow> (string \<times> string) list \<Rightarrow> (string \<times> string) list" where
  "params_set n v [] = [(n, v)]"
| "params_set n v ((n', v') # ps) =
     (if n = n' then (n, v) # filter (\<lambda>p. fst p \<noteq> n) ps else (n', v') # params_set n v ps)"

definition params_toString :: "(string \<times> string) list \<Rightarrow> string" where
  "params_toString ps = join ''&'' (map (\<lambda>(n, v). urlencode n @ ''='' @ urlencode v) ps)"

text \<open>The three parts of \<^verbatim>\<open>fetchRecentEnrollments\<close>: the query \<open>q\<close> (lines 126 to 128), the
  headers (lines 123 and 124) and the path (line 130). The default \<^verbatim>\<open>limit = 10\<close> applies to an
  argument that is \<^verbatim>\<open>undefined\<close>.\<close>

definition recent_query :: "jsval \<Rightarrow> jsval \<Rightarrow> (string \<times> string) list" where
  "recent_query limit source =
     (let q0 = [];
          q1 = (if truthy limit then params_set ''limit'' (js_String limit) q0 else q0);
          q2 = (if truthy source then params_set ''source'' (js_String source) q1 else q1)
      in q2)"

definition recent_headers :: "state \<Rightarrow> (string \<times> jsval) list" where
  "recent_headers s = (if truthy (ADMIN_KEY s) then obj_set ''X-Admin-Key'' (ADMIN_KEY s) [] else [])"

definition recent_path :: "(string \<times> string) list \<Rightarrow> string" where
  "recent_path q =
     ''/enrollments/recent'' @ (if params_toString q \<noteq> [] then ''?'' @ params_toString q else [])"

definition fetchRecentEnrollments :: "network \<Rightarrow> jsval \<Rightarrow> jsval \<Rightarrow> state \<Rightarrow> outcome promise" where
  "fetchRecentEnrollments net limit_arg source s =
     (let limit = (if limit_arg = JUndefined then JNum ''10'' else limit_arg)
      in await (httpGet net (recent_path (recent_query limit source))
                  (Given \<lparr> timeout = None, headers = Some (recent_headers s) \<rparr>) s)
           (substitute ''Unable to retrieve recent enrollments.''))"

definition createEnrollment :: "network \<Rightarrow> jsval \<Rightarrow> state \<Rightarrow> outcome promise" where
  "createEnrollment net payload s =
     await (httpPost net ''/enroll'' payload no_options s)
       (substitute ''Unable to create enrollment. Please try again.'')"

definition pingHealth :: "network \<Rightarrow> state \<Rightarrow> outcome promise" where
  "pingHealth net s = httpGet net ''/health'' no_options s"

section \<open>Text operations and router\<close>

text \<open>The text operations, lines 146 to 156, and \<^verbatim>\<open>askBackend(utterance)\<close>, lines 165 to 180.
  \<open>data_of r\<close> is \<^verbatim>\<open>r.data\<close>: \<^verbatim>\<open>undefined\<close> when the property is absent.\<close>

definition data_of :: "outcome \<Rightarrow> jsval" where
  "data_of r = (case data r of Some d \<Rightarrow> d | None \<Rightarrow> JUndefined)"

definition fetchCoursesText :: "network \<Rightarrow> state \<Rightarrow> string promise" where
  "fetchCoursesText net s =
     await (fetchCourses net s)
       (\<lambda>r s'. if \<not> ok r
                then (Inr ''Sorry, my live system is unreachable. Please try again later.'', s')
                else (coursesToText (data_of r), s'))"

definition fetchFaqsText :: "network \<Rightarrow> state \<Rightarrow> string promise" where
  "fetchFaqsText net s =
     await (fetchFaqs net s)
       (\<lambda>r s'. if \<not> ok r
                then (Inr ''Sorry, FAQs are not available right now.'', s')
                else (faqsToText (data_of r), s'))"

definition askBackend :: "network \<Rightarrow> jsval \<Rightarrow> state \<Rightarrow> outcome promise" where
  "askBackend net utterance s =
     (let u = toLowerCase (js_String (js_or utterance (JStr [])))
      in if includes_str u ''course''
         then await (fetchCoursesText net s) (\<lambda>t s'. (Inr (success (JStr t)), s'))
         else if includes_str u ''faq''
         then await (fetchFaqsText net s) (\<lambda>t s'. (Inr (success (JStr t)), s'))
         else await (httpPost net ''/chat'' (JObj [(''message'', utterance)]) no_options s)
                (\<lambda>res s'. if \<not> ok res then (Inr (failure ''Chat service is unavailable.''), s')
                           else (Inr res, s')))"

section \<open>Observations\<close>

text \<open>Notions the statements below use. \<open>issued_GET\<close> and \<open>issued_POST\<close> are the requests that
  \<^verbatim>\<open>httpGet\<close> and \<^verbatim>\<open>httpPost\<close> build when called in state \<open>s\<close> (their signal is the one of the
  timeout handle made in \<open>s\<close>); \<open>new_calls s s'\<close> are the platform calls made between \<open>s\<close> and
  \<open>s'\<close>; \<open>requests\<close> picks the requests out of a list of calls.\<close>

definition issued_GET :: "string \<Rightarrow> options \<Rightarrow> state \<Rightarrow> request" where
  "issued_GET path opts s = httpGet_request path opts (fst (withTimeout (timeout_of opts) None s)) s"

definition issued_POST :: "string \<Rightarrow> jsval \<Rightarrow> options \<Rightarrow> state \<Rightarrow> request" where
  "issued_POST path payload opts s =
     httpPost_request path payload opts (fst (withTimeout (timeout_of opts) None s)) s"

definition new_calls :: "state \<Rightarrow> state \<Rightarrow> event list" where
  "new_calls s s' = drop (length (calls s)) (calls s')"

fun is_ClearTimeout :: "event \<Rightarrow> bool" where
  "is_ClearTimeout (ClearTimeout i) = True"
| "is_ClearTimeout e = False"

fun requests :: "event list \<Rightarrow> request list" where
  "requests [] = []"
| "requests (Fetch r # evs) = r # requests evs"
| "requests (e # evs) = requests evs"

text \<open>Of a response: whether its declared content type indicates JSON, what decoding its body
  yields or throws, and which platform call decodes it.\<close>

definition is_json :: "response \<Rightarrow> bool" where
  "is_json res = includes_str (case content_type res of Some c \<Rightarrow> c | None \<Rightarrow> []) ''application/json''"

definition decoded :: "response \<Rightarrow> condition + jsval" where
  "decoded res = (if is_json res then json_body res else map_sum id JStr (text_body res))"

definition decode_call :: "response \<Rightarrow> event" where
  "decode_call res = (if is_json res then ReadJson else ReadText)"

definition status_message :: "string \<Rightarrow> string \<Rightarrow> response \<Rightarrow> string" where
  "status_message verb path res =
     verb @ '' '' @ path @ '' -> '' @ show_nat (status res) @ '' '' @ statusText res"

text \<open>The outcome of a transport call as a function of the network's answer (proved below to
  be what \<^verbatim>\<open>httpGet\<close> and \<^verbatim>\<open>httpPost\<close> return).\<close>

definition settle :: "string \<Rightarrow> string \<Rightarrow> condition + response \<Rightarrow> outcome" where
  "settle verb path answer =
     (case answer of
        Inl err \<Rightarrow> failure (error_text err)
      | Inr res \<Rightarrow>
          (case decoded res of
             Inl err \<Rightarrow> failure (error_text err)
           | Inr d \<Rightarrow> if response_ok res then success d
                      else failure (status_message verb path res)))"

text \<open>Exactly one arm of an outcome is populated: \<open>data\<close> and no \<open>error\<close> under the success tag,
  \<open>error\<close> and no \<open>data\<close> under the failure tag.\<close>

definition one_arm :: "outcome \<Rightarrow> bool" where
  "one_arm r = (if ok r then data r \<noteq> None \<and> error r = None else data r = None \<and> error r \<noteq> None)"

text \<open>The line that \<^verbatim>\<open>coursesToText\<close> makes of a course that is neither \<^verbatim>\<open>null\<close> nor
  \<^verbatim>\<open>undefined\<close>.\<close>

definition summary_or_json :: "jsval \<Rightarrow> jsval" where
  "summary_or_json c =
     (if truthy (get_field c ''summary'') then get_field c ''summary''
      else (case JSON_stringify c of Some t \<Rightarrow> JStr t | None \<Rightarrow> JUndefined))"

text \<open>The courses formatter as the specification words it: the fixed text when the input is
  absent or its course list is not a sequence; otherwise every course mapped to its summary
  field, or to its JSON text when the summary is absent, joined with newlines; the fixed text
  for an empty list.\<close>

definition coursesToText_spec :: "jsval \<Rightarrow> string" where
  "coursesToText_spec d =
     (if nullish d \<or> \<not> isArray (get_field d ''courses'') then ''No courses available at the moment.''
      else let lines = map (\<lambda>c. if get_field c ''summary'' \<noteq> JUndefined then get_field c ''summary''
                                  else (case JSON_stringify c of Some t \<Rightarrow> JStr t | None \<Rightarrow> JUndefined))
                         (elements (get_field d ''courses''))
           in if lines = [] then ''No courses available at the moment.''
              else array_join [CHR 0x0A] lines)"

section \<open>Example environments\<close>

text \<open>A network that is down, one that rejects with a condition without a message, a JSON
  response, and servers that answer every request alike: with a 404, with a truncated body
  under the status 200, and with a truncated body under the status 500.\<close>

definition offline :: network where
  "offline req = Inl (Condition ''TypeError'' ''Failed to fetch'')"

definition json_reply :: "nat \<Rightarrow> string \<Rightarrow> jsval \<Rightarrow> response" where
  "json_reply code phrase v =
     \<lparr> status = code, statusText = phrase, content_type = Some ''application/json'',
       json_body = Inr v, text_body = Inl (Condition ''TypeError'' ''body stream already read'') \<rparr>"

definition not_found :: network where
  "not_found req = Inr (json_reply 404 ''Not Found'' (JObj [(''detail'', JStr ''Not Found'')]))"

definition truncated :: response where
  "truncated =
     \<lparr> status = 200, statusText = ''OK'', content_type = Some ''application/json'',
       json_body = Inl (Condition ''SyntaxError'' ''Unexpected end of JSON input''),
       text_body = Inr [] \<rparr>"

definition bad_json :: network where
  "bad_json req = Inr truncated"

definition garbled :: response where
  "garbled =
     \<lparr> status = 500, statusText = ''Internal Server Error'', content_type = Some ''application/json'',
       json_body = Inl (Condition ''SyntaxError'' ''Unexpected end of JSON input''),
       text_body = Inr [] \<rparr>"

definition crashed :: network where
  "crashed req = Inr garbled"

definition silent :: network where
  "silent req = Inl (Condition ''AbortError'' [])"

definition two_courses :: jsval where
  "two_courses = JObj [(''courses'', JArr [JObj [(''summary'', JStr ''A'')], JObj [(''summary'', JStr ''B'')]])]"

definition catalogue :: network where
  "catalogue req = Inr (json_reply 200 ''OK'' two_courses)"

section \<open>Configuration setters\<close>

text \<open>
  C10. When the base URL is a string (as it is initially and after every call of the setter),
  \<^verbatim>\<open>setApiBase\<close> with a falsy argument leaves it unchanged, with a truthy argument it sets it
  to the argument's string form; after the call the base URL is a string, and
  \<^verbatim>\<open>getApiBase\<close> returns it.
\<close>

theorem setApiBase_falsy_truthy:
  assumes "API_BASE s = JStr b"
  shows "(\<not> truthy u \<longrightarrow> API_BASE (setApiBase u s) = JStr b)
       \<and> (truthy u \<longrightarrow> API_BASE (setApiBase u s) = JStr (js_String u))
       \<and> (\<exists>b'. API_BASE (setApiBase u s) = JStr b' \<and> getApiBase (setApiBase u s) = JStr b')"
  using assms by (simp add: setApiBase_def getApiBase_def js_or_def)

theorem setApiBase_falsy_truthy_witness:
  "API_BASE initial = JStr ''https://bcm-demo.onrender.com''
   \<and> \<not> truthy (JStr [])
   \<and> API_BASE (setApiBase (JStr []) initial) = JStr ''https://bcm-demo.onrender.com''
   \<and> truthy (JNum ''8000'')
   \<and> API_BASE (setApiBase (JNum ''8000'') initial) = JStr ''8000''"
proof -
  have h: "API_BASE initial = JStr ''https://bcm-demo.onrender.com''"
    by (simp add: initial_def)
  show ?thesis
    using h setApiBase_falsy_truthy [OF h, of "JStr []"]
      setApiBase_falsy_truthy [OF h, of "JNum ''8000''"]
    by simp
qed

section \<open>Timeout composer: what the produced signal does\<close>

lemmas platform_defs = withTimeout_def new_AbortController_def setTimeout_def addEventListener_def
  with_external_def initial_def fresh_signal_def elapse_def signal_aborted_def signal_reason_def
  mark_aborted_def abort_def Error_def

text \<open>With an external signal at a valid address \<open>g\<close>, in closed form: the timer aborts the
  signal of \<^verbatim>\<open>ctrl\<close>, the produced signal is the next one on the heap, and the only link to it
  is the listener registered on \<open>g\<close>.\<close>

lemma withTimeout_Some:
  "g < length (signals s) \<Longrightarrow>
   withTimeout ms (Some g) s =
     (\<lparr> signal = Suc (length (signals s)), clear = next_timer s, controller = length (signals s) \<rparr>,
      s\<lparr> signals := (signals s @ [fresh_signal, fresh_signal])
                        [g := (signals s ! g)\<lparr> listeners := listeners (signals s ! g)
                               @ [OnAbort (Suc (length (signals s))) g] \<rparr>],
         timers := timers s @ [\<lparr> timer_id = next_timer s, remaining = ms,
                                  callback = TimeoutAbort (length (signals s)) \<rparr>],
         next_timer := Suc (next_timer s),
         calls := calls s @ [SetTimeout (next_timer s) ms] \<rparr>)"
  by (simp add: withTimeout_def new_AbortController_def setTimeout_def addEventListener_def
        nth_append list_update_append)

text \<open>In every state: composing with a signal that is already aborted yields a signal that is
  not aborted.\<close>

lemma withTimeout_aborted_input_not_propagated:
  "signal_aborted s g \<Longrightarrow>
     \<not> signal_aborted (snd (withTimeout ms (Some g) s)) (signal (fst (withTimeout ms (Some g) s)))"
  by (simp add: signal_aborted_def withTimeout_Some nth_append fresh_signal_def)

text \<open>Without an external signal the produced signal is the timer's: it is aborted with
  \<^verbatim>\<open>Error("Timeout")\<close> once the duration has passed, and not before.\<close>

lemma withTimeout_alone_times_out:
  "signal_aborted (elapse d (snd (withTimeout ms None with_external)))
       (signal (fst (withTimeout ms None with_external))) = (ms \<le> d)
   \<and> (ms \<le> d \<longrightarrow> signal_reason (elapse d (snd (withTimeout ms None with_external)))
       (signal (fst (withTimeout ms None with_external))) = Thrown (Error ''Timeout''))"
  by (simp add: platform_defs)

text \<open>An external signal that is aborted after the composition aborts the produced signal,
  with its reason.\<close>

lemma withTimeout_later_abort_propagates:
  "signal_aborted (abort 0 (Thrown (Error ''stop'')) (snd (withTimeout ms (Some 0) with_external)))
        (signal (fst (withTimeout ms (Some 0) with_external)))
   \<and> signal_reason (abort 0 (Thrown (Error ''stop'')) (snd (withTimeout ms (Some 0) with_external)))
        (signal (fst (withTimeout ms (Some 0) with_external))) = Thrown (Error ''stop'')"
  by (simp add: platform_defs)

text \<open>
  C1. The claim: when the external signal is already aborted at the time \<^verbatim>\<open>withTimeout\<close>
  composes, the produced signal is aborted at once. The code registers a listener for a
  future abort event only. Evaluated on the caller's controller at address 0, aborted (with
  any reason \<open>r\<close>) before the call: the produced signal, at address 2, is not aborted when
  \<^verbatim>\<open>withTimeout\<close> returns, and it is not aborted after any time \<open>d\<close> either.
\<close>

theorem withTimeout_already_aborted_signal:
  "signal_aborted (abort 0 r with_external) 0
   \<and> signal (fst (withTimeout ms (Some 0) (abort 0 r with_external))) = 2
   \<and> \<not> signal_aborted (snd (withTimeout ms (Some 0) (abort 0 r with_external))) 2
   \<and> \<not> signal_aborted (elapse d (snd (withTimeout ms (Some 0) (abort 0 r with_external)))) 2"
  by (simp add: platform_defs)

text \<open>
  C2. The claim: the produced signal is aborted when the duration elapses or the external
  signal is aborted, whichever comes first, also when an external signal is given. The code
  lets the timer abort \<^verbatim>\<open>ctrl\<close> and returns the signal of \<^verbatim>\<open>combined\<close>. Evaluated with the
  caller's controller at address 0, never aborted: after any time \<open>d\<close> the produced signal, at
  address 2, is not aborted, while the signal of \<^verbatim>\<open>ctrl\<close>, at address 1, is aborted exactly when
  the duration has passed.
\<close>

theorem withTimeout_external_signal_no_timeout:
  "signal (fst (withTimeout ms (Some 0) with_external)) = 2
   \<and> controller (fst (withTimeout ms (Some 0) with_external)) = 1
   \<and> \<not> signal_aborted (elapse d (snd (withTimeout ms (Some 0) with_external))) 2
   \<and> signal_aborted (elapse d (snd (withTimeout ms (Some 0) with_external))) 1 = (ms \<le> d)"
  by (simp add: platform_defs)

section \<open>HTTP transport\<close>

lemma withTimeout_None:
  "withTimeout ms None s =
     (\<lparr> signal = length (signals s), clear = next_timer s, controller = length (signals s) \<rparr>,
      s\<lparr> signals := signals s @ [fresh_signal],
         timers := timers s @ [\<lparr> timer_id = next_timer s, remaining = ms,
                                  callback = TimeoutAbort (length (signals s)) \<rparr>],
         next_timer := Suc (next_timer s),
         calls := calls s @ [SetTimeout (next_timer s) ms] \<rparr>)"
  by (simp add: withTimeout_def new_AbortController_def setTimeout_def)

lemma await_Inl [simp]: "await (Inl err, s) k = (Inl err, s)"
  by (simp add: await_def)

lemma await_Inr [simp]: "await (Inr v, s) k = k v s"
  by (simp add: await_def)

lemma read_response_eq:
  "read_response verb path res s =
     (case decoded res of
        Inl err \<Rightarrow> Inl err
      | Inr d \<Rightarrow> if response_ok res then Inr (success d)
                 else Inl (Error (status_message verb path res)),
      s\<lparr> calls := calls s @ [decode_call res] \<rparr>)"
  by (cases "json_body res"; cases "text_body res")
     (simp_all add: read_response_def decoded_def decode_call_def is_json_def res_json_def
        res_text_def status_message_def)

lemma error_text_status_message:
  "verb \<noteq> [] \<Longrightarrow> error_text (Error (status_message verb path res)) = status_message verb path res"
  by (simp add: error_text_def Error_def status_message_def)

text \<open>Both transport functions, in closed form: the outcome is \<open>settle\<close> of the network's
  answer, the timer is gone, and the calls are in this order.\<close>

lemma httpGet_eq:
  "httpGet net path (Given opts) s =
     (Inr (settle ''GET'' path (net (issued_GET path opts s))),
      s\<lparr> signals := signals s @ [fresh_signal],
         timers := filter (\<lambda>t. timer_id t \<noteq> next_timer s) (timers s),
         next_timer := Suc (next_timer s),
         calls := calls s @ [SetTimeout (next_timer s) (timeout_of opts), Fetch (issued_GET path opts s)]
                    @ (case net (issued_GET path opts s) of Inl err \<Rightarrow> [] | Inr res \<Rightarrow> [decode_call res])
                    @ [ClearTimeout (next_timer s)] \<rparr>)"
  by (cases "net (issued_GET path opts s)")
     (auto simp add: httpGet_def withTimeout_None try_catch_finally_def fetch_def issued_GET_def
        httpGet_request_def read_response_eq catch_error_def clearTimeout_def settle_def error_text_status_message
        split: sum.splits)

lemma httpPost_eq:
  "httpPost net path payload (Given opts) s =
     (Inr (settle ''POST'' path (net (issued_POST path payload opts s))),
      s\<lparr> signals := signals s @ [fresh_signal],
         timers := filter (\<lambda>t. timer_id t \<noteq> next_timer s) (timers s),
         next_timer := Suc (next_timer s),
         calls := calls s @ [SetTimeout (next_timer s) (timeout_of opts),
                             Fetch (issued_POST path payload opts s)]
                    @ (case net (issued_POST path payload opts s) of
                         Inl err \<Rightarrow> [] | Inr res \<Rightarrow> [decode_call res])
                    @ [ClearTimeout (next_timer s)] \<rparr>)"
  by (cases "net (issued_POST path payload opts s)")
     (auto simp add: httpPost_def withTimeout_None try_catch_finally_def fetch_def issued_POST_def
        httpPost_request_def read_response_eq catch_error_def clearTimeout_def settle_def
        error_text_status_message
        split: sum.splits)

text \<open>An argument left out is the empty object; \<^verbatim>\<open>null\<close> makes the call reject at once, with
  no platform call made.\<close>

lemma httpGet_no_options [simp]:
  "httpGet net path no_options s = httpGet net path (Given empty_options) s"
  by (simp add: httpGet_def no_options_def)

lemma httpPost_no_options [simp]:
  "httpPost net path payload no_options s = httpPost net path payload (Given empty_options) s"
  by (simp add: httpPost_def no_options_def)

lemma httpGet_Null: "\<exists>err. httpGet net path Null s = (Inl err, s)"
  by (simp add: httpGet_def)

lemma httpPost_Null: "\<exists>err. httpPost net path payload Null s = (Inl err, s)"
  by (simp add: httpPost_def)

lemma new_calls_append [simp]: "new_calls s (s'\<lparr> calls := calls s @ evs \<rparr>) = evs"
  by (simp add: new_calls_def)

lemma httpGet_calls:
  "new_calls s (snd (httpGet net path (Given opts) s)) =
     [SetTimeout (next_timer s) (timeout_of opts), Fetch (issued_GET path opts s)]
       @ (case net (issued_GET path opts s) of Inl err \<Rightarrow> [] | Inr res \<Rightarrow> [decode_call res])
       @ [ClearTimeout (next_timer s)]"
  by (simp add: httpGet_eq new_calls_def)

lemma httpPost_calls:
  "new_calls s (snd (httpPost net path payload (Given opts) s)) =
     [SetTimeout (next_timer s) (timeout_of opts), Fetch (issued_POST path payload opts s)]
       @ (case net (issued_POST path payload opts s) of Inl err \<Rightarrow> [] | Inr res \<Rightarrow> [decode_call res])
       @ [ClearTimeout (next_timer s)]"
  by (simp add: httpPost_eq new_calls_def)

lemma is_ClearTimeout_decode_call [simp]: "\<not> is_ClearTimeout (decode_call res)"
  by (simp add: decode_call_def)

text \<open>
  C3. For every call of \<^verbatim>\<open>httpGet\<close> and \<^verbatim>\<open>httpPost\<close> that gets as far as its body (its options
  argument has properties; one left out is the empty object, see \<open>httpGet_no_options\<close>) and
  every answer of the network (a rejection, a response whose body fails to decode, a status
  outside 2xx, a success): the release function of the handle clears the timer that
  \<^verbatim>\<open>withTimeout\<close> has set, the platform calls of the invocation start with that \<^verbatim>\<open>setTimeout\<close>,
  contain exactly one \<^verbatim>\<open>clearTimeout\<close>, of that timer, which is the last call before the outcome
  is returned, and the timer is not pending afterwards.
\<close>

theorem transport_clears_timer_once:
  "clear (fst (withTimeout (timeout_of opts) None s)) = next_timer s
   \<and> take 1 (new_calls s (snd (httpGet net path (Given opts) s))) = [SetTimeout (next_timer s) (timeout_of opts)]
   \<and> filter is_ClearTimeout (new_calls s (snd (httpGet net path (Given opts) s))) = [ClearTimeout (next_timer s)]
   \<and> last (calls (snd (httpGet net path (Given opts) s))) = ClearTimeout (next_timer s)
   \<and> next_timer s \<notin> timer_id ` set (timers (snd (httpGet net path (Given opts) s)))
   \<and> take 1 (new_calls s (snd (httpPost net path payload (Given opts) s))) = [SetTimeout (next_timer s) (timeout_of opts)]
   \<and> filter is_ClearTimeout (new_calls s (snd (httpPost net path payload (Given opts) s))) = [ClearTimeout (next_timer s)]
   \<and> last (calls (snd (httpPost net path payload (Given opts) s))) = ClearTimeout (next_timer s)
   \<and> next_timer s \<notin> timer_id ` set (timers (snd (httpPost net path payload (Given opts) s)))"
proof -
  have g: "filter is_ClearTimeout (new_calls s (snd (httpGet net path (Given opts) s))) = [ClearTimeout (next_timer s)]"
    by (cases "net (issued_GET path opts s)") (simp_all add: httpGet_calls)
  have p: "filter is_ClearTimeout (new_calls s (snd (httpPost net path payload (Given opts) s))) = [ClearTimeout (next_timer s)]"
    by (cases "net (issued_POST path payload opts s)") (simp_all add: httpPost_calls)
  have "last (calls (snd (httpGet net path (Given opts) s))) = ClearTimeout (next_timer s)"
    and "last (calls (snd (httpPost net path payload (Given opts) s))) = ClearTimeout (next_timer s)"
    by (simp_all add: httpGet_eq httpPost_eq)
  moreover have "next_timer s \<notin> timer_id ` set (timers (snd (httpGet net path (Given opts) s)))"
    and "next_timer s \<notin> timer_id ` set (timers (snd (httpPost net path payload (Given opts) s)))"
    by (auto simp add: httpGet_eq httpPost_eq)
  moreover have "take 1 (new_calls s (snd (httpGet net path (Given opts) s))) = [SetTimeout (next_timer s) (timeout_of opts)]"
    and "take 1 (new_calls s (snd (httpPost net path payload (Given opts) s))) = [SetTimeout (next_timer s) (timeout_of opts)]"
    by (simp_all add: httpGet_calls httpPost_calls)
  moreover have "clear (fst (withTimeout (timeout_of opts) None s)) = next_timer s"
    by (simp add: withTimeout_None)
  ultimately show ?thesis using g p by simp
qed

text \<open>
  C4, as amended. For every response that \<^verbatim>\<open>httpGet\<close> or \<^verbatim>\<open>httpPost\<close> receives, whatever its
  status: the body is decoded, by \<^verbatim>\<open>res.json()\<close> when the content type contains
  \<^verbatim>\<open>application/json\<close> and by \<^verbatim>\<open>res.text()\<close> otherwise, between the fetch and the release of the
  timer. When decoding has yielded a body \<open>d\<close> and the status is outside 2xx, the outcome is
  the failure whose message is the verb, the path, an arrow, the status code and the status
  phrase; it has no \<open>data\<close>, so \<open>d\<close> is discarded. When decoding throws, the outcome is the
  failure that carries the thrown condition's text, whatever the status.
\<close>

theorem non_2xx_after_decoding:
  "(net (issued_GET path opts s) = Inr res \<longrightarrow>
      new_calls s (snd (httpGet net path (Given opts) s)) =
        [SetTimeout (next_timer s) (timeout_of opts), Fetch (issued_GET path opts s),
         if is_json res then ReadJson else ReadText, ClearTimeout (next_timer s)]
      \<and> (decoded res = Inr d \<and> \<not> response_ok res \<longrightarrow>
           fst (httpGet net path (Given opts) s) =
             Inr \<lparr> ok = False, data = None,
                   error = Some (''GET '' @ path @ '' -> '' @ show_nat (status res) @ '' '' @ statusText res) \<rparr>)
      \<and> (decoded res = Inl err \<longrightarrow>
           fst (httpGet net path (Given opts) s) =
             Inr \<lparr> ok = False, data = None,
                   error = Some (if cmessage err \<noteq> [] then cmessage err else condition_String err) \<rparr>))
   \<and> (net (issued_POST path payload opts s) = Inr res \<longrightarrow>
      new_calls s (snd (httpPost net path payload (Given opts) s)) =
        [SetTimeout (next_timer s) (timeout_of opts), Fetch (issued_POST path payload opts s),
         if is_json res then ReadJson else ReadText, ClearTimeout (next_timer s)]
      \<and> (decoded res = Inr d \<and> \<not> response_ok res \<longrightarrow>
           fst (httpPost net path payload (Given opts) s) =
             Inr \<lparr> ok = False, data = None,
                   error = Some (''POST '' @ path @ '' -> '' @ show_nat (status res) @ '' '' @ statusText res) \<rparr>)
      \<and> (decoded res = Inl err \<longrightarrow>
           fst (httpPost net path payload (Given opts) s) =
             Inr \<lparr> ok = False, data = None,
                   error = Some (if cmessage err \<noteq> [] then cmessage err else condition_String err) \<rparr>))"
  by (simp add: httpGet_calls httpPost_calls httpGet_eq httpPost_eq settle_def decode_call_def
        failure_def status_message_def error_text_def)

theorem non_2xx_after_decoding_witness:
  "not_found (issued_GET ''/faqs'' empty_options initial)
     = Inr (json_reply 404 ''Not Found'' (JObj [(''detail'', JStr ''Not Found'')]))
   \<and> not_found (issued_POST ''/chat'' JNull empty_options initial)
     = Inr (json_reply 404 ''Not Found'' (JObj [(''detail'', JStr ''Not Found'')]))
   \<and> decoded (json_reply 404 ''Not Found'' (JObj [(''detail'', JStr ''Not Found'')]))
     = Inr (JObj [(''detail'', JStr ''Not Found'')])
   \<and> \<not> response_ok (json_reply 404 ''Not Found'' (JObj [(''detail'', JStr ''Not Found'')]))
   \<and> fst (httpGet not_found ''/faqs'' (Given empty_options) initial)
     = Inr \<lparr> ok = False, data = None, error = Some ''GET /faqs -> 404 Not Found'' \<rparr>
   \<and> fst (httpPost not_found ''/chat'' JNull (Given empty_options) initial)
     = Inr \<lparr> ok = False, data = None, error = Some ''POST /chat -> 404 Not Found'' \<rparr>
   \<and> new_calls initial (snd (httpGet not_found ''/faqs'' (Given empty_options) initial))
     = [SetTimeout 1 12000, Fetch (issued_GET ''/faqs'' empty_options initial), ReadJson, ClearTimeout 1]
   \<and> crashed (issued_GET ''/faqs'' empty_options initial) = Inr garbled
   \<and> crashed (issued_POST ''/chat'' JNull empty_options initial) = Inr garbled
   \<and> decoded garbled = Inl (Condition ''SyntaxError'' ''Unexpected end of JSON input'')
   \<and> fst (httpGet crashed ''/faqs'' (Given empty_options) initial)
     = Inr \<lparr> ok = False, data = None, error = Some ''Unexpected end of JSON input'' \<rparr>
   \<and> fst (httpPost crashed ''/chat'' JNull (Given empty_options) initial)
     = Inr \<lparr> ok = False, data = None, error = Some ''Unexpected end of JSON input'' \<rparr>"
  using non_2xx_after_decoding [where net = not_found and path = "''/faqs''" and opts = empty_options
      and s = initial and res = "json_reply 404 ''Not Found'' (JObj [(''detail'', JStr ''Not Found'')])"
      and d = "JObj [(''detail'', JStr ''Not Found'')]" and payload = JNull]
    non_2xx_after_decoding [where net = not_found and path = "''/chat''" and opts = empty_options
      and s = initial and res = "json_reply 404 ''Not Found'' (JObj [(''detail'', JStr ''Not Found'')])"
      and d = "JObj [(''detail'', JStr ''Not Found'')]" and payload = JNull]
    non_2xx_after_decoding [where net = crashed and path = "''/faqs''" and opts = empty_options
      and s = initial and res = garbled and payload = JNull
      and err = "Condition ''SyntaxError'' ''Unexpected end of JSON input''"]
    non_2xx_after_decoding [where net = crashed and path = "''/chat''" and opts = empty_options
      and s = initial and res = garbled and payload = JNull
      and err = "Condition ''SyntaxError'' ''Unexpected end of JSON input''"]
  by (simp add: not_found_def json_reply_def crashed_def garbled_def decoded_def is_json_def
        response_ok_def show_nat.simps initial_def timeout_of_def empty_options_def
        DEFAULT_TIMEOUT_MS_def)

text \<open>The claim as stated fails on a response outside 2xx whose body does not decode: the
  status is 500, and the message of the outcome is the decoding error's, with no verb, path
  or status in it.\<close>

theorem non_2xx_undecodable_counterexample:
  "crashed (issued_GET ''/faqs'' empty_options initial) = Inr garbled
   \<and> status garbled = 500
   \<and> \<not> response_ok garbled
   \<and> fst (httpGet crashed ''/faqs'' no_options initial)
       = Inr \<lparr> ok = False, data = None, error = Some ''Unexpected end of JSON input'' \<rparr>
   \<and> fst (httpGet crashed ''/faqs'' no_options initial)
       \<noteq> Inr \<lparr> ok = False, data = None, error = Some ''GET /faqs -> 500 Internal Server Error'' \<rparr>"
  by (simp add: httpGet_eq settle_def crashed_def garbled_def decoded_def is_json_def
        response_ok_def failure_def error_text_def)

text \<open>
  C5, as amended. Called with an options argument that is left out or has properties (not
  \<^verbatim>\<open>null\<close>), \<^verbatim>\<open>httpGet\<close> and \<^verbatim>\<open>httpPost\<close> always fulfil with an outcome and never reject. When
  \<^verbatim>\<open>fetch\<close> rejects with a condition (a network failure, or the abort reason of the timeout),
  or the body decoding throws one, the outcome is the failure that carries the condition's
  message, or its string form when the message is empty.
\<close>

theorem transport_never_throws:
  "(\<exists>out. fst (httpGet net path (Given opts) s) = Inr out)
   \<and> (\<exists>out. fst (httpGet net path no_options s) = Inr out)
   \<and> (\<exists>out. fst (httpPost net path payload (Given opts) s) = Inr out)
   \<and> (\<exists>out. fst (httpPost net path payload no_options s) = Inr out)
   \<and> (net (issued_GET path opts s) = Inl err \<longrightarrow>
        fst (httpGet net path (Given opts) s) =
          Inr \<lparr> ok = False, data = None,
                error = Some (if cmessage err \<noteq> [] then cmessage err else condition_String err) \<rparr>)
   \<and> (net (issued_GET path opts s) = Inr res \<and> decoded res = Inl err \<longrightarrow>
        fst (httpGet net path (Given opts) s) =
          Inr \<lparr> ok = False, data = None,
                error = Some (if cmessage err \<noteq> [] then cmessage err else condition_String err) \<rparr>)
   \<and> (net (issued_POST path payload opts s) = Inl err \<longrightarrow>
        fst (httpPost net path payload (Given opts) s) =
          Inr \<lparr> ok = False, data = None,
                error = Some (if cmessage err \<noteq> [] then cmessage err else condition_String err) \<rparr>)
   \<and> (net (issued_POST path payload opts s) = Inr res \<and> decoded res = Inl err \<longrightarrow>
        fst (httpPost net path payload (Given opts) s) =
          Inr \<lparr> ok = False, data = None,
                error = Some (if cmessage err \<noteq> [] then cmessage err else condition_String err) \<rparr>)"
  by (simp add: httpGet_eq httpPost_eq settle_def failure_def error_text_def)

theorem transport_never_throws_witness:
  "offline (issued_GET ''/health'' empty_options initial) = Inl (Condition ''TypeError'' ''Failed to fetch'')
   \<and> fst (httpGet offline ''/health'' (Given empty_options) initial)
     = Inr \<lparr> ok = False, data = None, error = Some ''Failed to fetch'' \<rparr>
   \<and> offline (issued_POST ''/enroll'' JNull empty_options initial) = Inl (Condition ''TypeError'' ''Failed to fetch'')
   \<and> fst (httpPost offline ''/enroll'' JNull (Given empty_options) initial)
     = Inr \<lparr> ok = False, data = None, error = Some ''Failed to fetch'' \<rparr>
   \<and> silent (issued_GET ''/health'' empty_options initial) = Inl (Condition ''AbortError'' [])
   \<and> cmessage (Condition ''AbortError'' []) = []
   \<and> condition_String (Condition ''AbortError'' []) = ''AbortError''
   \<and> fst (httpGet silent ''/health'' (Given empty_options) initial)
     = Inr \<lparr> ok = False, data = None, error = Some ''AbortError'' \<rparr>
   \<and> silent (issued_POST ''/enroll'' JNull empty_options initial) = Inl (Condition ''AbortError'' [])
   \<and> fst (httpPost silent ''/enroll'' JNull (Given empty_options) initial)
     = Inr \<lparr> ok = False, data = None, error = Some ''AbortError'' \<rparr>
   \<and> bad_json (issued_GET ''/health'' empty_options initial) = Inr truncated
   \<and> bad_json (issued_POST ''/enroll'' JNull empty_options initial) = Inr truncated
   \<and> decoded truncated = Inl (Condition ''SyntaxError'' ''Unexpected end of JSON input'')
   \<and> fst (httpGet bad_json ''/health'' (Given empty_options) initial)
     = Inr \<lparr> ok = False, data = None, error = Some ''Unexpected end of JSON input'' \<rparr>
   \<and> fst (httpPost bad_json ''/enroll'' JNull (Given empty_options) initial)
     = Inr \<lparr> ok = False, data = None, error = Some ''Unexpected end of JSON input'' \<rparr>"
  using transport_never_throws [where net = offline and path = "''/health''" and opts = empty_options
      and s = initial and err = "Condition ''TypeError'' ''Failed to fetch''" and payload = JNull]
    transport_never_throws [where net = offline and path = "''/enroll''" and opts = empty_options
      and s = initial and err = "Condition ''TypeError'' ''Failed to fetch''" and payload = JNull]
    transport_never_throws [where net = silent and path = "''/health''" and opts = empty_options
      and s = initial and err = "Condition ''AbortError'' []" and payload = JNull]
    transport_never_throws [where net = silent and path = "''/enroll''" and opts = empty_options
      and s = initial and err = "Condition ''AbortError'' []" and payload = JNull]
    transport_never_throws [where net = bad_json and path = "''/health''" and opts = empty_options
      and s = initial and err = "Condition ''SyntaxError'' ''Unexpected end of JSON input''"
      and payload = JNull and res = truncated]
    transport_never_throws [where net = bad_json and path = "''/enroll''" and opts = empty_options
      and s = initial and err = "Condition ''SyntaxError'' ''Unexpected end of JSON input''"
      and payload = JNull and res = truncated]
  by (simp add: offline_def silent_def bad_json_def truncated_def decoded_def is_json_def)

text \<open>The claim as stated fails on an options argument that is \<^verbatim>\<open>null\<close>: binding the parameter
  throws before the \<^verbatim>\<open>try\<close>, so the promise rejects, whatever the network would answer; no
  timer is set and no request is made.\<close>

theorem transport_null_options_counterexample:
  "(\<exists>err. fst (httpGet offline ''/health'' Null initial) = Inl err \<and> cname err = ''TypeError'')
   \<and> (\<exists>err. fst (httpPost offline ''/enroll'' JNull Null initial) = Inl err \<and> cname err = ''TypeError'')
   \<and> snd (httpGet offline ''/health'' Null initial) = initial
   \<and> snd (httpPost offline ''/enroll'' JNull Null initial) = initial"
  by (simp add: httpGet_def httpPost_def)

text \<open>In every state and for every network, a condition without a message is reported by its
  string form, here its name.\<close>

lemma httpGet_empty_message:
  "fst (httpGet (\<lambda>req. Inl (Condition ''AbortError'' [])) path (Given opts) s)
     = Inr \<lparr> ok = False, data = None, error = Some ''AbortError'' \<rparr>"
  by (simp add: httpGet_eq settle_def failure_def error_text_def)

section \<open>The shape of outcomes\<close>

lemma one_arm_settle [simp]: "one_arm (settle verb path answer)"
  by (simp add: settle_def one_arm_def failure_def success_def split: sum.splits)

lemma one_arm_failure [simp]: "one_arm (failure msg)"
  by (simp add: one_arm_def failure_def)

lemma one_arm_success [simp]: "one_arm (success d)"
  by (simp add: one_arm_def success_def)

lemma substitute_httpGet:
  "await (httpGet net path (Given opts) s) (substitute msg) =
     (Inr (if ok (settle ''GET'' path (net (issued_GET path opts s)))
           then settle ''GET'' path (net (issued_GET path opts s)) else failure msg),
      snd (httpGet net path (Given opts) s))"
  by (simp add: httpGet_eq substitute_def)

lemma substitute_httpPost:
  "await (httpPost net path payload (Given opts) s) (substitute msg) =
     (Inr (if ok (settle ''POST'' path (net (issued_POST path payload opts s)))
           then settle ''POST'' path (net (issued_POST path payload opts s)) else failure msg),
      snd (httpPost net path payload (Given opts) s))"
  by (simp add: httpPost_eq substitute_def)

lemma askBackend_one_arm:
  "fst (askBackend net utterance s) = Inr out \<Longrightarrow> one_arm out"
proof -
  assume a: "fst (askBackend net utterance s) = Inr out"
  let ?u = "toLowerCase (js_String (js_or utterance (JStr [])))"
  consider (course) "includes_str ?u ''course''"
    | (faq) "\<not> includes_str ?u ''course''" "includes_str ?u ''faq''"
    | (chat) "\<not> includes_str ?u ''course''" "\<not> includes_str ?u ''faq''"
    by blast
  then show ?thesis
  proof cases
    case course
    with a show ?thesis
      by (cases "fetchCoursesText net s"; cases "fst (fetchCoursesText net s)")
         (auto simp add: askBackend_def)
  next
    case faq
    with a show ?thesis
      by (cases "fetchFaqsText net s"; cases "fst (fetchFaqsText net s)")
         (auto simp add: askBackend_def)
  next
    case chat
    with a show ?thesis
      by (auto simp add: askBackend_def httpPost_eq split: if_splits)
  qed
qed

text \<open>
  C7. Every outcome that a public structured operation returns has exactly one arm
  populated. \<^verbatim>\<open>fetchCourses\<close>, \<^verbatim>\<open>fetchFaqs\<close>, \<^verbatim>\<open>fetchRecentEnrollments\<close>, \<^verbatim>\<open>createEnrollment\<close> and
  \<^verbatim>\<open>pingHealth\<close> always return such an outcome; \<^verbatim>\<open>askBackend\<close> does whenever it returns one (it
  rethrows what a formatter throws).
\<close>

theorem outcomes_have_one_arm:
  "(\<exists>out. fst (fetchCourses net s) = Inr out \<and> one_arm out)
   \<and> (\<exists>out. fst (fetchFaqs net s) = Inr out \<and> one_arm out)
   \<and> (\<exists>out. fst (fetchRecentEnrollments net limit source s) = Inr out \<and> one_arm out)
   \<and> (\<exists>out. fst (createEnrollment net payload s) = Inr out \<and> one_arm out)
   \<and> (\<exists>out. fst (pingHealth net s) = Inr out \<and> one_arm out)
   \<and> (\<forall>out. fst (askBackend net utterance s) = Inr out \<longrightarrow> one_arm out)"
proof -
  have "\<exists>out. fst (fetchCourses net s) = Inr out \<and> one_arm out"
    by (simp add: fetchCourses_def substitute_httpGet)
  moreover have "\<exists>out. fst (fetchFaqs net s) = Inr out \<and> one_arm out"
    by (simp add: fetchFaqs_def substitute_httpGet)
  moreover have "\<exists>out. fst (fetchRecentEnrollments net limit source s) = Inr out \<and> one_arm out"
    by (simp add: fetchRecentEnrollments_def substitute_httpGet Let_def)
  moreover have "\<exists>out. fst (createEnrollment net payload s) = Inr out \<and> one_arm out"
    by (simp add: createEnrollment_def substitute_httpPost)
  moreover have "\<exists>out. fst (pingHealth net s) = Inr out \<and> one_arm out"
    by (simp add: pingHealth_def httpGet_eq)
  moreover have "\<forall>out. fst (askBackend net utterance s) = Inr out \<longrightarrow> one_arm out"
    using askBackend_one_arm by blast
  ultimately show ?thesis by blast
qed

theorem outcomes_have_one_arm_witness:
  "fst (askBackend offline (JStr ''Hello'') initial)
     = Inr \<lparr> ok = False, data = None, error = Some ''Chat service is unavailable.'' \<rparr>
   \<and> one_arm \<lparr> ok = False, data = None, error = Some ''Chat service is unavailable.'' \<rparr>
   \<and> \<not> one_arm \<lparr> ok = True, data = None, error = None \<rparr>
   \<and> \<not> one_arm \<lparr> ok = False, data = Some JNull, error = Some ''both'' \<rparr>"
proof -
  have run: "fst (askBackend offline (JStr ''Hello'') initial)
     = Inr \<lparr> ok = False, data = None, error = Some ''Chat service is unavailable.'' \<rparr>"
    by (simp add: askBackend_def js_or_def toLowerCase_def toLowerCase_char_def httpPost_eq
          settle_def offline_def failure_def)
  show ?thesis
    using run outcomes_have_one_arm [where net = offline and utterance = "JStr ''Hello''" and s = initial]
    by (simp add: one_arm_def)
qed

section \<open>Courses formatter\<close>

lemma map_throwing_course_line:
  "\<forall>c \<in> set cs. \<not> nullish c \<Longrightarrow> map_throwing course_line cs = Inr (map summary_or_json cs)"
  by (induction cs) (simp_all add: course_line_def read_property_def summary_or_json_def)

text \<open>
  C8, as amended. If the input is falsy or its \<^verbatim>\<open>courses\<close> property is not an array,
  \<^verbatim>\<open>coursesToText\<close> yields the fixed text. Otherwise, when no entry of the list is \<^verbatim>\<open>null\<close> or
  \<^verbatim>\<open>undefined\<close>, every course is mapped to its summary when that is truthy and to its JSON
  text when it is not (absent, empty, zero, false or null); the lines are joined with
  newlines, and the empty list yields the fixed text.
\<close>

theorem coursesToText_truthy_summary:
  "(\<not> truthy d \<or> \<not> isArray (get_field d ''courses'') \<longrightarrow>
      coursesToText d = Inr ''No courses available at the moment.'')
   \<and> (truthy d \<and> get_field d ''courses'' = JArr cs \<and> (\<forall>c \<in> set cs. \<not> nullish c) \<longrightarrow>
      coursesToText d =
        Inr (if cs = [] then ''No courses available at the moment.''
             else array_join [CHR 0x0A]
                    (map (\<lambda>c. if truthy (get_field c ''summary'') then get_field c ''summary''
                               else (case JSON_stringify c of Some t \<Rightarrow> JStr t | None \<Rightarrow> JUndefined)) cs)))"
proof -
  have "coursesToText d = Inr ''No courses available at the moment.''"
    if "\<not> truthy d \<or> \<not> isArray (get_field d ''courses'')"
    using that by (auto simp add: coursesToText_def)
  moreover have "coursesToText d =
        Inr (if cs = [] then ''No courses available at the moment.''
             else array_join [CHR 0x0A] (map summary_or_json cs))"
    if "truthy d" "get_field d ''courses'' = JArr cs" "\<forall>c \<in> set cs. \<not> nullish c"
    using that by (simp add: coursesToText_def map_throwing_course_line)
  ultimately show ?thesis
    unfolding summary_or_json_def by blast
qed

theorem coursesToText_truthy_summary_witness:
  "truthy two_courses
   \<and> get_field two_courses ''courses'' = JArr [JObj [(''summary'', JStr ''A'')], JObj [(''summary'', JStr ''B'')]]
   \<and> \<not> nullish (JObj [(''summary'', JStr ''A'')]) \<and> \<not> nullish (JObj [(''summary'', JStr ''B'')])
   \<and> coursesToText two_courses = Inr (''A'' @ [CHR 0x0A] @ ''B'')
   \<and> coursesToText (JObj [(''courses'', JArr [])]) = Inr ''No courses available at the moment.''
   \<and> \<not> truthy JNull
   \<and> coursesToText JNull = Inr ''No courses available at the moment.''
   \<and> \<not> isArray (get_field (JObj [(''courses'', JStr ''none'')]) ''courses'')
   \<and> coursesToText (JObj [(''courses'', JStr ''none'')]) = Inr ''No courses available at the moment.''"
  using coursesToText_truthy_summary [of two_courses
          "[JObj [(''summary'', JStr ''A'')], JObj [(''summary'', JStr ''B'')]]"]
    coursesToText_truthy_summary [of "JObj [(''courses'', JArr [])]" "[]"]
    coursesToText_truthy_summary [of JNull]
    coursesToText_truthy_summary [of "JObj [(''courses'', JStr ''none'')]"]
  by (simp add: array_join_def two_courses_def)

text \<open>The claim as stated fails on a course whose summary is present and empty: the code
  prints the course's JSON text, where the specification's wording prints the summary.\<close>

theorem coursesToText_empty_summary_counterexample:
  \<open>coursesToText (JObj [(''courses'', JArr [JObj [(''summary'', JStr [])]])]) = Inr ''{"summary":""}''
   \<and> coursesToText_spec (JObj [(''courses'', JArr [JObj [(''summary'', JStr [])]])]) = []
   \<and> coursesToText (JObj [(''courses'', JArr [JObj [(''summary'', JStr [])]])])
       \<noteq> Inr (coursesToText_spec (JObj [(''courses'', JArr [JObj [(''summary'', JStr [])]])]))\<close>
  by (simp add: coursesToText_def coursesToText_spec_def course_line_def read_property_def
        array_join_def quote_def quote_char_def)

text \<open>An entry that is \<^verbatim>\<open>null\<close> makes the formatter throw.\<close>

lemma coursesToText_null_entry_throws:
  "coursesToText (JObj [(''courses'', JArr [JNull])]) = Inl (TypeError_reading JNull ''summary'')"
  by (simp add: coursesToText_def course_line_def read_property_def)

section \<open>Recent enrollments\<close>

lemma urlencode_limit [simp]: "urlencode ''limit'' = ''limit''"
  by (simp add: urlencode_def urlencode_char_def alnum_def)

lemma urlencode_source [simp]: "urlencode ''source'' = ''source''"
  by (simp add: urlencode_def urlencode_char_def alnum_def)

lemma recent_path_cases:
  "recent_path (recent_query l src) =
     ''/enrollments/recent'' @
       (if truthy l
        then ''?limit='' @ urlencode (js_String l)
               @ (if truthy src then ''&source='' @ urlencode (js_String src) else [])
        else if truthy src then ''?source='' @ urlencode (js_String src) else [])"
  by (simp add: recent_path_def recent_query_def params_toString_def)

lemma issued_GET_eq:
  "issued_GET path opts s =
     \<lparr> req_method = ''GET'', req_url = js_String (API_BASE s) @ path,
       req_headers = spread [(''Accept'', JStr ''application/json'')] (headers_of opts),
       req_body = None, req_signal = length (signals s) \<rparr>"
  by (simp add: issued_GET_def httpGet_request_def withTimeout_None)

lemma issued_POST_eq:
  "issued_POST path payload opts s =
     \<lparr> req_method = ''POST'', req_url = js_String (API_BASE s) @ path,
       req_headers = spread [(''Content-Type'', JStr ''application/json''),
                             (''Accept'', JStr ''application/json'')] (headers_of opts),
       req_body = JSON_stringify (js_or payload (JObj [])), req_signal = length (signals s) \<rparr>"
  by (simp add: issued_POST_def httpPost_request_def withTimeout_None)

lemma requests_httpGet:
  "requests (new_calls s (snd (httpGet net path (Given opts) s))) = [issued_GET path opts s]"
  by (cases "net (issued_GET path opts s)") (simp_all add: httpGet_calls decode_call_def)

lemma requests_httpPost:
  "requests (new_calls s (snd (httpPost net path payload (Given opts) s))) = [issued_POST path payload opts s]"
  by (cases "net (issued_POST path payload opts s)") (simp_all add: httpPost_calls decode_call_def)

lemma snd_await_substitute: "snd (await p (substitute msg)) = snd p"
  by (cases p; cases "fst p") (auto simp add: substitute_def)

lemma recent_request:
  "requests (new_calls s (snd (fetchRecentEnrollments net limit source s))) =
     [\<lparr> req_method = ''GET'',
        req_url = js_String (API_BASE s) @ ''/enrollments/recent'' @
          (if limit = JUndefined \<or> truthy limit
           then ''?limit='' @ urlencode (if limit = JUndefined then ''10'' else js_String limit)
                  @ (if truthy source then ''&source='' @ urlencode (js_String source) else [])
           else if truthy source then ''?source='' @ urlencode (js_String source) else []),
        req_headers = (''Accept'', JStr ''application/json'')
                        # (if truthy (ADMIN_KEY s) then [(''X-Admin-Key'', ADMIN_KEY s)] else []),
        req_body = None,
        req_signal = length (signals s) \<rparr>]"
  by (simp add: fetchRecentEnrollments_def Let_def snd_await_substitute requests_httpGet
        issued_GET_eq recent_path_cases headers_of_def recent_headers_def spread_def)

text \<open>
  C9, as amended. \<^verbatim>\<open>fetchRecentEnrollments\<close> issues one request, a read. It carries the
  \<^verbatim>\<open>X-Admin-Key\<close> header, holding the admin key, if and only if the admin key is truthy at the
  time of the call. Its query string has \<^verbatim>\<open>limit\<close> if and only if the limit argument is
  \<^verbatim>\<open>undefined\<close> (the default 10 is then sent) or truthy, and \<^verbatim>\<open>source\<close> if and only if the
  source argument is truthy.
\<close>

theorem fetchRecentEnrollments_request:
  "requests (new_calls s (snd (fetchRecentEnrollments net limit source s))) =
     [\<lparr> req_method = ''GET'',
        req_url = js_String (API_BASE s) @ ''/enrollments/recent'' @
          (if limit = JUndefined \<or> truthy limit
           then ''?limit='' @ urlencode (if limit = JUndefined then ''10'' else js_String limit)
                  @ (if truthy source then ''&source='' @ urlencode (js_String source) else [])
           else if truthy source then ''?source='' @ urlencode (js_String source) else []),
        req_headers = (''Accept'', JStr ''application/json'')
                        # (if truthy (ADMIN_KEY s) then [(''X-Admin-Key'', ADMIN_KEY s)] else []),
        req_body = None,
        req_signal = length (signals s) \<rparr>]"
  by (rule recent_request)

text \<open>The claim as stated fails for a limit argument that is \<^verbatim>\<open>undefined\<close>: it is falsy, and
  the query string has \<^verbatim>\<open>limit=10\<close>.\<close>

theorem fetchRecentEnrollments_default_limit_counterexample:
  "\<not> truthy JUndefined
   \<and> map req_url (requests (calls (snd (fetchRecentEnrollments offline JUndefined JUndefined initial))))
       = [''https://bcm-demo.onrender.com/enrollments/recent?limit=10'']"
proof -
  have "calls initial = []" by (simp add: initial_def)
  then have "calls (snd (fetchRecentEnrollments offline JUndefined JUndefined initial))
      = new_calls initial (snd (fetchRecentEnrollments offline JUndefined JUndefined initial))"
    by (simp add: new_calls_def)
  then show ?thesis
    by (simp add: recent_request initial_def urlencode_def urlencode_char_def alnum_def)
qed

section \<open>Router\<close>

lemma snd_fetchCoursesText:
  "snd (fetchCoursesText net s) = snd (httpGet net ''/courses/summary/all'' no_options s)"
  by (simp add: fetchCoursesText_def fetchCourses_def substitute_httpGet)

lemma snd_fetchFaqsText:
  "snd (fetchFaqsText net s) = snd (httpGet net ''/faqs'' no_options s)"
  by (simp add: fetchFaqsText_def fetchFaqs_def substitute_httpGet)

lemma await_wrap:
  "await p (\<lambda>t s'. (Inr (f t), s')) = (map_sum id f (fst p), snd p)"
  by (cases p; cases "fst p") auto

lemma lower_of_string [simp]: "js_String (js_or (JStr m) (JStr [])) = m"
  by (simp add: js_or_def)

lemma askBackend_course:
  "includes_str (toLowerCase m) ''course'' \<Longrightarrow>
     askBackend net (JStr m) s =
       (map_sum id (\<lambda>t. success (JStr t)) (fst (fetchCoursesText net s)), snd (fetchCoursesText net s))"
  by (simp add: askBackend_def await_wrap)

lemma askBackend_faq:
  "\<not> includes_str (toLowerCase m) ''course'' \<Longrightarrow> includes_str (toLowerCase m) ''faq'' \<Longrightarrow>
     askBackend net (JStr m) s =
       (map_sum id (\<lambda>t. success (JStr t)) (fst (fetchFaqsText net s)), snd (fetchFaqsText net s))"
  by (simp add: askBackend_def await_wrap)

lemma askBackend_chat:
  "\<not> includes_str (toLowerCase m) ''course'' \<Longrightarrow> \<not> includes_str (toLowerCase m) ''faq'' \<Longrightarrow>
     askBackend net (JStr m) s =
       (let res = settle ''POST'' ''/chat'' (net (issued_POST ''/chat'' (JObj [(''message'', JStr m)]) empty_options s))
        in (Inr (if ok res then res else failure ''Chat service is unavailable.''),
            snd (httpPost net ''/chat'' (JObj [(''message'', JStr m)]) no_options s)))"
  by (simp add: askBackend_def httpPost_eq)

text \<open>
  C6. For every input string \<open>m\<close> of \<^verbatim>\<open>askBackend\<close>: if the lower-cased \<open>m\<close> contains
  \<^verbatim>\<open>course\<close>, the result is the result of the courses text operation, wrapped as the data of a
  success (a rejection is passed on), and the only request made is the read of the
  courses, whether or not \<open>m\<close> contains \<^verbatim>\<open>faq\<close> too; else if it contains \<^verbatim>\<open>faq\<close>, likewise with
  the FAQs text operation; otherwise one write to \<^verbatim>\<open>/chat\<close> is made whose body is the object of
  the raw message, and its outcome is returned, a failure replaced by the failure with the
  message \<^verbatim>\<open>Chat service is unavailable.\<close>
\<close>

theorem askBackend_first_match:
  "(includes_str (toLowerCase m) ''course'' \<longrightarrow>
      fst (askBackend net (JStr m) s) =
        map_sum id (\<lambda>t. \<lparr> ok = True, data = Some (JStr t), error = None \<rparr>) (fst (fetchCoursesText net s))
      \<and> snd (askBackend net (JStr m) s) = snd (fetchCoursesText net s)
      \<and> map (\<lambda>r. (req_method r, req_url r)) (requests (new_calls s (snd (askBackend net (JStr m) s))))
          = [(''GET'', js_String (API_BASE s) @ ''/courses/summary/all'')])
   \<and> (\<not> includes_str (toLowerCase m) ''course'' \<and> includes_str (toLowerCase m) ''faq'' \<longrightarrow>
      fst (askBackend net (JStr m) s) =
        map_sum id (\<lambda>t. \<lparr> ok = True, data = Some (JStr t), error = None \<rparr>) (fst (fetchFaqsText net s))
      \<and> snd (askBackend net (JStr m) s) = snd (fetchFaqsText net s)
      \<and> map (\<lambda>r. (req_method r, req_url r)) (requests (new_calls s (snd (askBackend net (JStr m) s))))
          = [(''GET'', js_String (API_BASE s) @ ''/faqs'')])
   \<and> (\<not> includes_str (toLowerCase m) ''course'' \<and> \<not> includes_str (toLowerCase m) ''faq'' \<longrightarrow>
      (\<exists>res. fst (httpPost net ''/chat'' (JObj [(''message'', JStr m)]) no_options s) = Inr res
         \<and> fst (askBackend net (JStr m) s) =
             Inr (if ok res then res
                  else \<lparr> ok = False, data = None, error = Some ''Chat service is unavailable.'' \<rparr>))
      \<and> snd (askBackend net (JStr m) s) = snd (httpPost net ''/chat'' (JObj [(''message'', JStr m)]) no_options s)
      \<and> map (\<lambda>r. (req_method r, req_url r, req_body r))
            (requests (new_calls s (snd (askBackend net (JStr m) s))))
          = [(''POST'', js_String (API_BASE s) @ ''/chat'',
              Some (''{'' @ quote ''message'' @ '':'' @ quote m @ ''}''))])"
proof -
  have c: "includes_str (toLowerCase m) ''course'' \<longrightarrow>
      fst (askBackend net (JStr m) s) =
        map_sum id (\<lambda>t. \<lparr> ok = True, data = Some (JStr t), error = None \<rparr>) (fst (fetchCoursesText net s))
      \<and> snd (askBackend net (JStr m) s) = snd (fetchCoursesText net s)
      \<and> map (\<lambda>r. (req_method r, req_url r)) (requests (new_calls s (snd (askBackend net (JStr m) s))))
          = [(''GET'', js_String (API_BASE s) @ ''/courses/summary/all'')]"
    by (simp add: askBackend_course snd_fetchCoursesText requests_httpGet issued_GET_eq success_def)
  have f: "\<not> includes_str (toLowerCase m) ''course'' \<and> includes_str (toLowerCase m) ''faq'' \<longrightarrow>
      fst (askBackend net (JStr m) s) =
        map_sum id (\<lambda>t. \<lparr> ok = True, data = Some (JStr t), error = None \<rparr>) (fst (fetchFaqsText net s))
      \<and> snd (askBackend net (JStr m) s) = snd (fetchFaqsText net s)
      \<and> map (\<lambda>r. (req_method r, req_url r)) (requests (new_calls s (snd (askBackend net (JStr m) s))))
          = [(''GET'', js_String (API_BASE s) @ ''/faqs'')]"
    by (simp add: askBackend_faq snd_fetchFaqsText requests_httpGet issued_GET_eq success_def)
  have h1: "\<not> includes_str (toLowerCase m) ''course'' \<and> \<not> includes_str (toLowerCase m) ''faq'' \<longrightarrow>
      (\<exists>res. fst (httpPost net ''/chat'' (JObj [(''message'', JStr m)]) no_options s) = Inr res
         \<and> fst (askBackend net (JStr m) s) =
             Inr (if ok res then res
                  else \<lparr> ok = False, data = None, error = Some ''Chat service is unavailable.'' \<rparr>))"
    by (simp add: askBackend_chat Let_def httpPost_eq failure_def)
  have h2: "\<not> includes_str (toLowerCase m) ''course'' \<and> \<not> includes_str (toLowerCase m) ''faq'' \<longrightarrow>
      snd (askBackend net (JStr m) s) = snd (httpPost net ''/chat'' (JObj [(''message'', JStr m)]) no_options s)"
    by (simp add: askBackend_chat Let_def)
  have h3: "map (\<lambda>r. (req_method r, req_url r, req_body r))
            (requests (new_calls s (snd (httpPost net ''/chat'' (JObj [(''message'', JStr m)]) no_options s))))
          = [(''POST'', js_String (API_BASE s) @ ''/chat'',
              Some (''{'' @ quote ''message'' @ '':'' @ quote m @ ''}''))]"
    by (simp add: requests_httpPost issued_POST_eq js_or_def)
  from h2 h3 have h: "\<not> includes_str (toLowerCase m) ''course'' \<and> \<not> includes_str (toLowerCase m) ''faq'' \<longrightarrow>
      snd (askBackend net (JStr m) s) = snd (httpPost net ''/chat'' (JObj [(''message'', JStr m)]) no_options s)
      \<and> map (\<lambda>r. (req_method r, req_url r, req_body r))
            (requests (new_calls s (snd (askBackend net (JStr m) s))))
          = [(''POST'', js_String (API_BASE s) @ ''/chat'',
              Some (''{'' @ quote ''message'' @ '':'' @ quote m @ ''}''))]"
    by simp
  from c f h1 h show ?thesis by blast
qed

theorem askBackend_first_match_witness:
  "includes_str (toLowerCase ''FAQ about Courses'') ''course''
   \<and> includes_str (toLowerCase ''FAQ about Courses'') ''faq''
   \<and> fst (askBackend catalogue (JStr ''FAQ about Courses'') initial)
       = Inr \<lparr> ok = True, data = Some (JStr (''A'' @ [CHR 0x0A] @ ''B'')), error = None \<rparr>
   \<and> map (\<lambda>r. (req_method r, req_url r))
        (requests (new_calls initial (snd (askBackend catalogue (JStr ''FAQ about Courses'') initial))))
       = [(''GET'', ''https://bcm-demo.onrender.com/courses/summary/all'')]
   \<and> \<not> includes_str (toLowerCase ''Any FAQs?'') ''course''
   \<and> includes_str (toLowerCase ''Any FAQs?'') ''faq''
   \<and> fst (askBackend catalogue (JStr ''Any FAQs?'') initial)
       = Inr \<lparr> ok = True, data = Some (JStr ''No FAQs available right now.''), error = None \<rparr>
   \<and> map (\<lambda>r. (req_method r, req_url r))
        (requests (new_calls initial (snd (askBackend catalogue (JStr ''Any FAQs?'') initial))))
       = [(''GET'', ''https://bcm-demo.onrender.com/faqs'')]
   \<and> \<not> includes_str (toLowerCase ''Hello'') ''course''
   \<and> \<not> includes_str (toLowerCase ''Hello'') ''faq''
   \<and> fst (askBackend offline (JStr ''Hello'') initial)
       = Inr \<lparr> ok = False, data = None, error = Some ''Chat service is unavailable.'' \<rparr>
   \<and> map (\<lambda>r. (req_method r, req_url r, req_body r))
        (requests (new_calls initial (snd (askBackend offline (JStr ''Hello'') initial))))
       = [(''POST'', ''https://bcm-demo.onrender.com/chat'',
           Some (''{'' @ quote ''message'' @ '':'' @ quote ''Hello'' @ ''}''))]"
proof -
  have lower: "includes_str (toLowerCase ''FAQ about Courses'') ''course''"
    "includes_str (toLowerCase ''FAQ about Courses'') ''faq''"
    "\<not> includes_str (toLowerCase ''Any FAQs?'') ''course''"
    "includes_str (toLowerCase ''Any FAQs?'') ''faq''"
    "\<not> includes_str (toLowerCase ''Hello'') ''course''"
    "\<not> includes_str (toLowerCase ''Hello'') ''faq''"
    by (simp_all add: toLowerCase_def toLowerCase_char_def)
  have courses: "fst (fetchCoursesText catalogue initial) = Inr (''A'' @ [CHR 0x0A] @ ''B'')"
    by (simp add: fetchCoursesText_def fetchCourses_def substitute_httpGet settle_def catalogue_def
          json_reply_def decoded_def is_json_def response_ok_def success_def data_of_def
          coursesToText_def two_courses_def course_line_def read_property_def array_join_def)
  have faqs: "fst (fetchFaqsText catalogue initial) = Inr ''No FAQs available right now.''"
    by (simp add: fetchFaqsText_def fetchFaqs_def substitute_httpGet settle_def catalogue_def
          json_reply_def decoded_def is_json_def response_ok_def success_def data_of_def
          faqsToText_def two_courses_def)
  have chat: "fst (httpPost offline ''/chat'' (JObj [(''message'', JStr ''Hello'')]) no_options initial)
      = Inr \<lparr> ok = False, data = None, error = Some ''Failed to fetch'' \<rparr>"
    by (simp add: httpPost_eq settle_def offline_def failure_def error_text_def)
  have base: "js_String (API_BASE initial) = ''https://bcm-demo.onrender.com''"
    by (simp add: initial_def)
  have c1: "fst (askBackend catalogue (JStr ''FAQ about Courses'') initial) =
        map_sum id (\<lambda>t. \<lparr> ok = True, data = Some (JStr t), error = None \<rparr>) (fst (fetchCoursesText catalogue initial))"
    and c2: "map (\<lambda>r. (req_method r, req_url r))
        (requests (new_calls initial (snd (askBackend catalogue (JStr ''FAQ about Courses'') initial))))
       = [(''GET'', js_String (API_BASE initial) @ ''/courses/summary/all'')]"
    using lower askBackend_first_match [where m = "''FAQ about Courses''" and net = catalogue and s = initial]
    by blast+
  have f1: "fst (askBackend catalogue (JStr ''Any FAQs?'') initial) =
        map_sum id (\<lambda>t. \<lparr> ok = True, data = Some (JStr t), error = None \<rparr>) (fst (fetchFaqsText catalogue initial))"
    and f2: "map (\<lambda>r. (req_method r, req_url r))
        (requests (new_calls initial (snd (askBackend catalogue (JStr ''Any FAQs?'') initial))))
       = [(''GET'', js_String (API_BASE initial) @ ''/faqs'')]"
    using lower askBackend_first_match [where m = "''Any FAQs?''" and net = catalogue and s = initial]
    by blast+
  have h1: "\<exists>res. fst (httpPost offline ''/chat'' (JObj [(''message'', JStr ''Hello'')]) no_options initial) = Inr res
         \<and> fst (askBackend offline (JStr ''Hello'') initial) =
             Inr (if ok res then res
                  else \<lparr> ok = False, data = None, error = Some ''Chat service is unavailable.'' \<rparr>)"
    and h2: "map (\<lambda>r. (req_method r, req_url r, req_body r))
        (requests (new_calls initial (snd (askBackend offline (JStr ''Hello'') initial))))
       = [(''POST'', js_String (API_BASE initial) @ ''/chat'',
           Some (''{'' @ quote ''message'' @ '':'' @ quote ''Hello'' @ ''}''))]"
    using lower askBackend_first_match [where m = "''Hello''" and net = offline and s = initial]
    by blast+
  from h1 chat have h3: "fst (askBackend offline (JStr ''Hello'') initial)
       = Inr \<lparr> ok = False, data = None, error = Some ''Chat service is unavailable.'' \<rparr>"
    by auto
  show ?thesis
    using lower by (simp add: c1 c2 f1 f2 h2 h3 courses faqs base)
qed

end
